theory Spec2Isabelle
  imports Main "HOL-Library.AList" "HOL-Library.Log_Nat" "HOL-Library.Code_Target_Nat"
begin

section \<open>Python values used by the script\<close>

text \<open>
  The script \<^verbatim>\<open>scripts/image_metadata_overlay.py\<close> is a linear pipeline
  (download, extract, overlay, save).  This first part models the Python
  built-ins it calls on strings and floats.  A Python \<^verbatim>\<open>str\<close> is a
  \<^typ>\<open>string\<close> whose characters are the code points below 256.
\<close>

subsection \<open>Exceptions\<close>

text \<open>
  The exceptions that can travel through the script.  \<open>ValueError\<close> is what
  tuple unpacking and \<^verbatim>\<open>float()\<close> raise, \<open>ZeroDivisionError\<close> what float
  division raises, \<open>KeyError\<close> what a dictionary subscript raises, \<open>HTTPError\<close>
  what \<^verbatim>\<open>raise_for_status\<close> raises (with the status code),
  \<open>UnicodeEncodeError\<close> what \<^verbatim>\<open>print\<close> raises on a text that the encoding
  of the stream cannot represent.  \<open>LibraryError\<close> stands for any exception
  raised inside requests, Pillow or exifread, named by its class.
\<close>

datatype error =
    ValueError
  | ZeroDivisionError
  | KeyError string
  | HTTPError nat
  | UnicodeEncodeError
  | LibraryError string

subsection \<open>Strings\<close>

text \<open>\<^verbatim>\<open>str.isspace\<close> on one code point below 256.\<close>

definition py_isspace :: "char \<Rightarrow> bool" where
  "py_isspace c = ((of_char c :: nat) \<in> {9, 10, 11, 12, 13, 28, 29, 30, 31, 32, 133, 160})"

text \<open>\<^verbatim>\<open>s.strip()\<close>: whitespace removed at both ends.\<close>

definition py_strip :: "string \<Rightarrow> string" where
  "py_strip s = rev (dropWhile py_isspace (rev (dropWhile py_isspace s)))"

text \<open>
  \<^verbatim>\<open>s.split(c)\<close> for a one-character separator: one more piece than there
  are separators, empty pieces kept.  A character other than the separator
  joins the first piece of the rest; the rest always has a first piece, so
  the case of an empty list of pieces is never taken.
\<close>

fun py_split :: "char \<Rightarrow> string \<Rightarrow> string list" where
  "py_split c [] = [[]]"
| "py_split c (x # xs) =
     (if x = c then [] # py_split c xs
      else (case py_split c xs of [] \<Rightarrow> [[x]] | p # ps \<Rightarrow> (x # p) # ps))"

text \<open>\<^verbatim>\<open>s.replace(a, b)\<close> for one-character \<open>a\<close> and \<open>b\<close>.\<close>

definition py_replace :: "char \<Rightarrow> char \<Rightarrow> string \<Rightarrow> string" where
  "py_replace a b s = map (\<lambda>c. if c = a then b else c) s"

text \<open>\<^verbatim>\<open>a, b = xs\<close>: unpacking into exactly two names.\<close>

fun unpack2 :: "'a list \<Rightarrow> error + ('a \<times> 'a)" where
  "unpack2 [a, b] = Inr (a, b)"
| "unpack2 _ = Inl ValueError"

definition is_digit :: "char \<Rightarrow> bool" where
  "is_digit c = (c \<in> set ''0123456789'')"

definition digit_val :: "char \<Rightarrow> nat" where
  "digit_val c = of_char c - 48"

definition digits_val :: "string \<Rightarrow> nat" where
  "digits_val ds = foldl (\<lambda>acc c. 10 * acc + digit_val c) 0 ds"

definition digit_chr :: "nat \<Rightarrow> char" where
  "digit_chr d = char_of (48 + d)"

text \<open>\<^verbatim>\<open>str(n)\<close> for a natural number.\<close>

fun str_nat :: "nat \<Rightarrow> string" where
  "str_nat n = (if n < 10 then [digit_chr n] else str_nat (n div 10) @ [digit_chr (n mod 10)])"

declare str_nat.simps [simp del]

definition to_lower :: "char \<Rightarrow> char" where
  "to_lower c = (if c \<in> set ''ABCDEFGHIJKLMNOPQRSTUVWXYZ'' then char_of (of_char c + (32::nat)) else c)"

subsection \<open>Floats\<close>

text \<open>
  A Python float is an IEEE 754 binary64 value.  \<open>Finite neg m e\<close> is the
  number \<open>m * 2 ^ e\<close> with sign \<open>neg\<close> (zero keeps its sign), \<open>Infinity neg\<close>
  and \<open>NaN\<close> are the special values.
\<close>

datatype pyfloat = Finite bool nat int | Infinity bool | NaN

text \<open>Rounding a quotient of naturals to the nearest integer, ties to even.\<close>

definition round_half_even :: "nat \<Rightarrow> nat \<Rightarrow> nat" where
  "round_half_even n d =
     (let q = n div d; r = n mod d
      in if 2 * r < d then q
         else if d < 2 * r then q + 1
         else if even q then q else q + 1)"

text \<open>
  \<open>round_binary64 n d k\<close> rounds the positive number \<open>n / d * 2 ^ k\<close> to
  binary64 (round to nearest, ties to even; 53 significant bits, least
  exponent \<open>-1022\<close>, subnormals below it).  The result is the significand and
  the exponent of its unit; \<open>None\<close> is overflow.
\<close>

definition round_binary64 :: "nat \<Rightarrow> nat \<Rightarrow> int \<Rightarrow> (nat \<times> int) option" where
  "round_binary64 n d k =
     (if n = 0 then Some (0, 0)
      else
        let t = int (floorlog 2 n) - int (floorlog 2 d);
            e = (if (if 0 \<le> t then d * 2 ^ nat t \<le> n else d \<le> n * 2 ^ nat (- t))
                 then t + k else t + k - 1);
            e' = max e (- 1022);
            q = e' - 52;
            m = (if q \<le> k then round_half_even (n * 2 ^ nat (k - q)) d
                 else round_half_even n (d * 2 ^ nat (q - k)))
        in if 1024 \<le> e' \<or> (e' = 1023 \<and> m = 2 ^ 53) then None else Some (m, q))"

definition make_float :: "bool \<Rightarrow> (nat \<times> int) option \<Rightarrow> pyfloat" where
  "make_float neg r = (case r of None \<Rightarrow> Infinity neg | Some (m, q) \<Rightarrow> Finite neg m q)"

text \<open>
  \<^verbatim>\<open>float(s)\<close> starts by checking the underscores of \<open>s\<close> (each must stand
  between two digits) and removing them.  \<open>prev\<close> is the character before.
\<close>

fun strip_underscores :: "char \<Rightarrow> string \<Rightarrow> string option" where
  "strip_underscores prev [] = (if prev = CHR ''_'' then None else Some [])"
| "strip_underscores prev (c # cs) =
     (if c = CHR ''_'' then
        (if is_digit prev then strip_underscores c cs else None)
      else if prev = CHR ''_'' \<and> \<not> is_digit c then None
      else map_option ((#) c) (strip_underscores c cs))"

text \<open>
  The exponent of a decimal literal: empty, or \<^verbatim>\<open>e\<close>/\<^verbatim>\<open>E\<close>, an optional
  sign and at least one digit, up to the end of the string.
\<close>

definition parse_exponent :: "string \<Rightarrow> int option" where
  "parse_exponent s =
     (case s of
        [] \<Rightarrow> Some 0
      | c # r \<Rightarrow>
          if c = CHR ''e'' \<or> c = CHR ''E'' then
            (let neg = (r \<noteq> [] \<and> hd r = CHR ''-'');
                 ds = (if r \<noteq> [] \<and> (hd r = CHR ''-'' \<or> hd r = CHR ''+'') then tl r else r)
             in if ds \<noteq> [] \<and> list_all is_digit ds
                then Some (if neg then - int (digits_val ds) else int (digits_val ds))
                else None)
          else None)"

text \<open>
  An unsigned literal: \<^verbatim>\<open>inf\<close>, \<^verbatim>\<open>infinity\<close> or \<^verbatim>\<open>nan\<close> in any case, or
  digits with an optional point and exponent (at least one digit before or
  after the point).  The decimal value is rounded to binary64.
\<close>

definition parse_unsigned :: "bool \<Rightarrow> string \<Rightarrow> pyfloat option" where
  "parse_unsigned neg s =
     (if map to_lower s = ''inf'' \<or> map to_lower s = ''infinity'' then Some (Infinity neg)
      else if map to_lower s = ''nan'' then Some NaN
      else
        let ip = takeWhile is_digit s;
            r = dropWhile is_digit s;
            fp = (if r \<noteq> [] \<and> hd r = CHR ''.'' then takeWhile is_digit (tl r) else []);
            r' = (if r \<noteq> [] \<and> hd r = CHR ''.'' then dropWhile is_digit (tl r) else r)
        in if ip = [] \<and> fp = [] then None
           else (case parse_exponent r' of
                   None \<Rightarrow> None
                 | Some x \<Rightarrow>
                     let m = digits_val (ip @ fp);
                         s10 = x - int (length fp)
                     in Some (make_float neg
                          (if 0 \<le> s10 then round_binary64 (m * 10 ^ nat s10) 1 0
                           else round_binary64 m (10 ^ nat (- s10)) 0))))"

text \<open>
  The whitespace that \<^verbatim>\<open>float\<close> drops around its argument: the six ASCII
  whitespace characters and, of the code points from 128 to 255, the two
  spaces.  Unlike \<^verbatim>\<open>str.strip\<close> it keeps the separators 28 to 31.
\<close>

definition float_isspace :: "char \<Rightarrow> bool" where
  "float_isspace c = ((of_char c :: nat) \<in> {9, 10, 11, 12, 13, 32, 133, 160})"

definition float_strip :: "string \<Rightarrow> string" where
  "float_strip s = rev (dropWhile float_isspace (rev (dropWhile float_isspace s)))"

text \<open>
  \<^verbatim>\<open>float(s)\<close>: surrounding whitespace is dropped, underscores are checked
  and removed, an optional sign is read, and the rest must be one unsigned
  literal; anything else raises \<open>ValueError\<close>.
\<close>

definition py_float :: "string \<Rightarrow> error + pyfloat" where
  "py_float s =
     (case strip_underscores (CHR 0x00) (float_strip s) of
        None \<Rightarrow> Inl ValueError
      | Some t \<Rightarrow>
          (let neg = (t \<noteq> [] \<and> hd t = CHR ''-'');
               u = (if t \<noteq> [] \<and> (hd t = CHR ''-'' \<or> hd t = CHR ''+'') then tl t else t)
           in case parse_unsigned neg u of
                None \<Rightarrow> Inl ValueError
              | Some f \<Rightarrow> Inr f))"

text \<open>
  \<^verbatim>\<open>a / b\<close> on floats: a zero divisor (of either sign) raises
  \<open>ZeroDivisionError\<close>; otherwise the IEEE quotient.
\<close>

fun float_truediv :: "pyfloat \<Rightarrow> pyfloat \<Rightarrow> error + pyfloat" where
  "float_truediv a (Finite nb mb eb) =
     (if mb = 0 then Inl ZeroDivisionError
      else (case a of
              NaN \<Rightarrow> Inr NaN
            | Infinity na \<Rightarrow> Inr (Infinity (na \<noteq> nb))
            | Finite na ma ea \<Rightarrow> Inr (make_float (na \<noteq> nb) (round_binary64 ma mb (ea - eb)))))"
| "float_truediv a (Infinity nb) =
     (case a of
        Finite na ma ea \<Rightarrow> Inr (Finite (na \<noteq> nb) 0 0)
      | _ \<Rightarrow> Inr NaN)"
| "float_truediv a NaN = Inr NaN"

text \<open>\<^verbatim>\<open>f"{v:.1f}"\<close>: one digit after the point, the exact value rounded half to even.\<close>

definition format_1f :: "pyfloat \<Rightarrow> string" where
  "format_1f v =
     (case v of
        NaN \<Rightarrow> ''nan''
      | Infinity neg \<Rightarrow> (if neg then ''-inf'' else ''inf'')
      | Finite neg m e \<Rightarrow>
          (let t = (if 0 \<le> e then m * 10 * 2 ^ nat e else round_half_even (m * 10) (2 ^ nat (- e)))
           in (if neg then ''-'' else '''') @ str_nat (t div 10) @ ''.'' @ str_nat (t mod 10)))"

section \<open>Data model\<close>

type_synonym bytes = "nat list"

text \<open>
  A value of the dictionary returned by \<^verbatim>\<open>exifread.process_file\<close>.  The
  script only tests it for truth and applies \<^verbatim>\<open>str\<close> to it, which gives
  the tag's printable text.
\<close>

datatype IfdTag = IfdTag (printable: string)

type_synonym tags = "string \<rightharpoonup> IfdTag"

text \<open>
  The truth test \<^verbatim>\<open>if tag:\<close> on the result of \<^verbatim>\<open>tags.get(key, None)\<close>.
  \<^verbatim>\<open>None\<close> is false; the tag class defines neither \<^verbatim>\<open>__bool__\<close> nor
  \<^verbatim>\<open>__len__\<close>, so every tag object is true, whatever its text.
\<close>

fun truthy :: "IfdTag option \<Rightarrow> bool" where
  "truthy None = False"
| "truthy (Some t) = True"

text \<open>\<^verbatim>\<open>str(tag)\<close> and \<^verbatim>\<open>f"{tag}"\<close> of a tag that passed the truth test.\<close>

fun str_tag :: "IfdTag option \<Rightarrow> string" where
  "str_tag None = ''None''"
| "str_tag (Some t) = printable t"

text \<open>
  The \<^verbatim>\<open>metadata\<close> dictionary.  A Python dictionary keeps the order of
  insertion, which \<^verbatim>\<open>main\<close> prints, so it is an association list;
  \<^verbatim>\<open>d[k] = v\<close> is \<^const>\<open>AList.update\<close> and \<^verbatim>\<open>d[k]\<close> raises \<open>KeyError\<close> on a
  missing key.
\<close>

type_synonym metadata = "(string \<times> string) list"

definition dict_set :: "metadata \<Rightarrow> string \<Rightarrow> string \<Rightarrow> metadata" where
  "dict_set d k v = AList.update k v d"

definition dict_get :: "metadata \<Rightarrow> string \<Rightarrow> error + string" where
  "dict_get d k = (case map_of d k of None \<Rightarrow> Inl (KeyError k) | Some v \<Rightarrow> Inr v)"

record response =
  status_code :: nat
  content :: bytes

datatype font = FreeTypeFont string nat | DefaultFont

text \<open>One call of \<^verbatim>\<open>draw.text(xy, text, font=font, fill=fill)\<close>.\<close>

record draw_call =
  call_xy :: "int \<times> int"
  call_text :: string
  call_font :: font
  call_fill :: "nat \<times> nat \<times> nat"

text \<open>
  A Pillow image: its size, its mode (\<^verbatim>\<open>"RGB"\<close>, \<^verbatim>\<open>"L"\<close>, ...), its pixels
  (opaque here) and the text drawn on it so far, in the order of the calls.
\<close>

record image =
  width :: int
  height :: int
  mode :: string
  pixels :: bytes
  drawn :: "draw_call list"

text \<open>
  What is written to the two streams.  The first seven are the \<^verbatim>\<open>print\<close>
  calls of the script, one constructor per call site; \<open>LogLine\<close> is a line
  that a library writes to the error stream by itself: a record of the
  \<^verbatim>\<open>exifread\<close> logger, which has no handler in this script and so is sent
  to \<^verbatim>\<open>sys.stderr\<close> from level WARNING on, or a warning of Pillow.
\<close>

datatype message =
    Downloading string
  | Extracting
  | ExtractedHeader
  | MetadataItem string string
  | Overlaying
  | Success string
  | ErrorMessage error
  | LogLine string

text \<open>
  The world the script runs in: how many GET requests it has issued, the two
  output streams, and the files on disk.
\<close>

record world =
  requests_made :: nat
  stdout :: "message list"
  stderr :: "message list"
  files :: "string \<rightharpoonup> bytes"

text \<open>
  The libraries and the outside world, as parameters of the model:
  \<^item> \<open>http_get url n\<close> is the outcome of the \<open>n\<close>-th request of the run, when
    it asks for \<open>url\<close> (an exception of requests, or a response);
  \<^item> \<open>image_open\<close> is \<^verbatim>\<open>Image.open(BytesIO(b))\<close> and \<open>image_open_warnings\<close>
    the warnings it sends to the error stream on these bytes;
  \<^item> \<open>process_file\<close> is \<^verbatim>\<open>exifread.process_file(BytesIO(b))\<close> and
    \<open>exifread_log\<close> the records its logger sends to the error stream on
    these bytes;
  \<^item> \<open>path_exists\<close> is \<^verbatim>\<open>os.path.exists\<close>, \<open>truetype\<close> is \<^verbatim>\<open>ImageFont.truetype\<close>;
  \<^item> \<open>copy_raises img\<close> is the exception, if any, of \<^verbatim>\<open>image.copy()\<close> and
    \<^verbatim>\<open>ImageDraw.Draw\<close> on its result: \<^verbatim>\<open>Image.open\<close> is lazy, the copy
    loads the pixels and raises \<^verbatim>\<open>OSError\<close> on a truncated file;
  \<^item> \<open>draw_text_raises m font s fill\<close> is the exception, if any, of
    \<^verbatim>\<open>draw.text(xy, s, font=font, fill=fill)\<close> on an image of mode \<open>m\<close>, for
    instance the \<^verbatim>\<open>TypeError\<close> of a three-band \<open>fill\<close> on a single-band
    image; the text is clipped to the image, so the position plays no part;
  \<^item> \<open>textbbox font s\<close> is \<^verbatim>\<open>draw.textbbox((0, 0), s, font=font)\<close>;
  \<^item> \<open>save_file img fmt quality old\<close> is \<^verbatim>\<open>img.save(path, fmt, quality=quality)\<close>
    on a path whose content was \<open>old\<close> (\<open>None\<close>: no such file): the content
    it leaves there and the exception it raised, if any;
  \<^item> \<open>stdout_encodes m\<close> tells whether the encoding of standard output
    can represent the line \<open>m\<close>, when \<open>m\<close> has a character outside ASCII.
\<close>

record env =
  http_get :: "string \<Rightarrow> nat \<Rightarrow> error + response"
  image_open :: "bytes \<Rightarrow> error + image"
  image_open_warnings :: "bytes \<Rightarrow> string list"
  process_file :: "bytes \<Rightarrow> error + tags"
  exifread_log :: "bytes \<Rightarrow> string list"
  path_exists :: "string \<Rightarrow> bool"
  truetype :: "string \<Rightarrow> nat \<Rightarrow> error + font"
  copy_raises :: "image \<Rightarrow> error option"
  draw_text_raises :: "string \<Rightarrow> font \<Rightarrow> string \<Rightarrow> nat \<times> nat \<times> nat \<Rightarrow> error option"
  textbbox :: "font \<Rightarrow> string \<Rightarrow> error + (int \<times> int \<times> int \<times> int)"
  save_file :: "image \<Rightarrow> string \<Rightarrow> nat \<Rightarrow> bytes option \<Rightarrow> bytes option \<times> error option"
  stdout_encodes :: "message \<Rightarrow> bool"

text \<open>
  A statement that may raise and may change the world; \<open>bind\<close> is sequencing:
  an exception skips what follows and keeps the world as it was when raised.
\<close>

type_synonym 'a prog = "world \<Rightarrow> (error + 'a) \<times> world"

definition return :: "'a \<Rightarrow> 'a prog" where
  "return a = (\<lambda>w. (Inr a, w))"

definition bind :: "'a prog \<Rightarrow> ('a \<Rightarrow> 'b prog) \<Rightarrow> 'b prog" where
  "bind m f = (\<lambda>w. case m w of (Inl e, w') \<Rightarrow> (Inl e, w') | (Inr a, w') \<Rightarrow> f a w')"

definition lift :: "error + 'a \<Rightarrow> 'a prog" where
  "lift r = (\<lambda>w. (r, w))"

text \<open>
  Whether a line of the script has ASCII characters only.  The fixed parts
  of the lines are ASCII but for the check mark (U+2705) of the line of
  success and the cross (U+274C) of the line of failure.
\<close>

definition is_ascii :: "string \<Rightarrow> bool" where
  "is_ascii s = list_all (\<lambda>c. (of_char c :: nat) < 128) s"

fun ascii_only :: "message \<Rightarrow> bool" where
  "ascii_only (Downloading url) = is_ascii url"
| "ascii_only Extracting = True"
| "ascii_only ExtractedHeader = True"
| "ascii_only (MetadataItem k v) = (is_ascii k \<and> is_ascii v)"
| "ascii_only Overlaying = True"
| "ascii_only (Success path) = False"
| "ascii_only (ErrorMessage e) = False"
| "ascii_only (LogLine s) = is_ascii s"

text \<open>
  \<^verbatim>\<open>print(...)\<close> to standard output.  The line is encoded before any of it
  is written: a line the encoding of the stream cannot represent raises
  \<open>UnicodeEncodeError\<close> and writes nothing.  Every encoding Python offers for
  the stream represents ASCII; for any other line it is up to the stream.
\<close>

definition print :: "env \<Rightarrow> message \<Rightarrow> unit prog" where
  "print env m =
     (\<lambda>w. if ascii_only m \<or> stdout_encodes env m
          then (Inr (), w\<lparr>stdout := stdout w @ [m]\<rparr>)
          else (Inl UnicodeEncodeError, w))"

text \<open>
  \<^verbatim>\<open>print(..., file=sys.stderr)\<close>.  The error stream encodes with the
  \<^verbatim>\<open>backslashreplace\<close> handler, which represents every character.
\<close>

definition print_err :: "message \<Rightarrow> unit prog" where
  "print_err m = (\<lambda>w. (Inr (), w\<lparr>stderr := stderr w @ [m]\<rparr>))"

text \<open>
  A library call that writes lines to the error stream on its own, whatever
  it then returns or raises.
\<close>

definition logging :: "string list \<Rightarrow> error + 'a \<Rightarrow> 'a prog" where
  "logging ls r = (\<lambda>w. (r, w\<lparr>stderr := stderr w @ map LogLine ls\<rparr>))"

text \<open>\<^verbatim>\<open>Image.open(BytesIO(b))\<close> and \<^verbatim>\<open>exifread.process_file(BytesIO(b))\<close>.\<close>

definition Image_open :: "env \<Rightarrow> bytes \<Rightarrow> image prog" where
  "Image_open env b = logging (image_open_warnings env b) (image_open env b)"

definition exifread_process_file :: "env \<Rightarrow> bytes \<Rightarrow> tags prog" where
  "exifread_process_file env b = logging (exifread_log env b) (process_file env b)"

section \<open>The script\<close>

definition SAMPLE_IMAGE_URL :: string where
  "SAMPLE_IMAGE_URL = ''https://raw.githubusercontent.com/ianare/exif-samples/master/jpg/Canon_40D.jpg''"

definition OUTPUT_FILENAME :: string where
  "OUTPUT_FILENAME = ''output_with_metadata.jpg''"

text \<open>\<^verbatim>\<open>requests.get(url, timeout=30)\<close>: one more request issued.\<close>

definition requests_get :: "env \<Rightarrow> string \<Rightarrow> response prog" where
  "requests_get env url = (\<lambda>w. (http_get env url (requests_made w), w\<lparr>requests_made := requests_made w + 1\<rparr>))"

text \<open>\<^verbatim>\<open>response.raise_for_status()\<close>: raises for the statuses 400 to 599.\<close>

definition raise_for_status :: "response \<Rightarrow> error + unit" where
  "raise_for_status r =
     (if 400 \<le> status_code r \<and> status_code r < 600 then Inl (HTTPError (status_code r)) else Inr ())"

definition download_image :: "env \<Rightarrow> string \<Rightarrow> image prog" where
  "download_image env url =
     bind (print env (Downloading url)) (\<lambda>_.
     bind (requests_get env url) (\<lambda>response.
     bind (lift (raise_for_status response)) (\<lambda>_.
     Image_open env (content response))))"

subsection \<open>\<^verbatim>\<open>extract_exif_data\<close>, field by field\<close>

text \<open>Lines 39 to 47: camera make and model.\<close>

definition camera_field :: "tags \<Rightarrow> string" where
  "camera_field tags =
     (let make = tags ''Image Make'';
          model = tags ''Image Model''
      in if truthy make \<and> truthy model then py_strip (str_tag make @ '' '' @ str_tag model)
         else if truthy model then str_tag model
         else ''Unknown Camera'')"

text \<open>Lines 49 to 54: lens.\<close>

definition lens_field :: "tags \<Rightarrow> string" where
  "lens_field tags =
     (let lens = tags ''EXIF LensModel''
      in if truthy lens then str_tag lens else ''Unknown Lens'')"

text \<open>
  Lines 56 to 68: aperture.  The split is unpacked into two names, both are
  converted with \<^verbatim>\<open>float\<close> (numerator first) and divided.
\<close>

definition aperture_field :: "tags \<Rightarrow> error + string" where
  "aperture_field tags =
     (let aperture = tags ''EXIF FNumber''
      in if truthy aperture then
           (let aperture_str = str_tag aperture
            in if CHR ''/'' \<in> set aperture_str then
                 (case unpack2 (py_split (CHR ''/'') aperture_str) of
                    Inl e \<Rightarrow> Inl e
                  | Inr (num, denom) \<Rightarrow>
                      (case py_float num of
                         Inl e \<Rightarrow> Inl e
                       | Inr n \<Rightarrow>
                           (case py_float denom of
                              Inl e \<Rightarrow> Inl e
                            | Inr d \<Rightarrow>
                                (case float_truediv n d of
                                   Inl e \<Rightarrow> Inl e
                                 | Inr aperture_value \<Rightarrow> Inr (''f/'' @ format_1f aperture_value)))))
               else Inr (''f/'' @ aperture_str))
         else Inr ''f/?'')"

text \<open>Lines 70 to 75: shutter speed.\<close>

definition shutter_field :: "tags \<Rightarrow> string" where
  "shutter_field tags =
     (let shutter = tags ''EXIF ExposureTime''
      in if truthy shutter then str_tag shutter @ ''s'' else ''?s'')"

text \<open>Lines 77 to 82: ISO.\<close>

definition iso_field :: "tags \<Rightarrow> string" where
  "iso_field tags =
     (let iso = tags ''EXIF ISOSpeedRatings''
      in if truthy iso then ''ISO '' @ str_tag iso else ''ISO ?'')"

text \<open>Lines 84 to 94: date and time.\<close>

definition datetime_field :: "tags \<Rightarrow> error + string" where
  "datetime_field tags =
     (let datetime_original = tags ''EXIF DateTimeOriginal''
      in if truthy datetime_original then
           (let datetime_str = str_tag datetime_original
            in case unpack2 (py_split (CHR '' '') datetime_str) of
                 Inl e \<Rightarrow> Inl e
               | Inr (date_part, time_part) \<Rightarrow>
                   Inr (py_replace (CHR '':'') (CHR ''-'') date_part @ '' '' @ time_part))
         else Inr ''Unknown Date'')"

text \<open>
  Lines 37 to 96: the dictionary is filled in the order of the source, so an
  exception of the aperture step comes before one of the date step.
\<close>

definition metadata_of_tags :: "tags \<Rightarrow> error + metadata" where
  "metadata_of_tags tags =
     (let metadata = [];
          metadata = dict_set metadata ''camera'' (camera_field tags);
          metadata = dict_set metadata ''lens'' (lens_field tags)
      in case aperture_field tags of
           Inl e \<Rightarrow> Inl e
         | Inr a \<Rightarrow>
             (let metadata = dict_set metadata ''aperture'' a;
                  metadata = dict_set metadata ''shutter'' (shutter_field tags);
                  metadata = dict_set metadata ''iso'' (iso_field tags)
              in case datetime_field tags of
                   Inl e \<Rightarrow> Inl e
                 | Inr d \<Rightarrow> Inr (dict_set metadata ''datetime'' d)))"

definition extract_exif_data :: "env \<Rightarrow> string \<Rightarrow> metadata prog" where
  "extract_exif_data env url =
     bind (print env Extracting) (\<lambda>_.
     bind (requests_get env url) (\<lambda>response.
     bind (lift (raise_for_status response)) (\<lambda>_.
     bind (exifread_process_file env (content response)) (\<lambda>tags.
     lift (metadata_of_tags tags)))))"

subsection \<open>\<^verbatim>\<open>create_text_with_shadow\<close>\<close>

definition draw_text :: "image \<Rightarrow> int \<times> int \<Rightarrow> string \<Rightarrow> font \<Rightarrow> nat \<times> nat \<times> nat \<Rightarrow> image" where
  "draw_text draw p s f c =
     draw\<lparr>drawn := drawn draw @ [\<lparr>call_xy = p, call_text = s, call_font = f, call_fill = c\<rparr>]\<rparr>"

text \<open>\<^verbatim>\<open>range(a, b)\<close>.\<close>

definition py_range :: "int \<Rightarrow> int \<Rightarrow> int list" where
  "py_range a b = [a..b - 1]"

text \<open>
  Lines 99 to 110.  The two nested \<^verbatim>\<open>for\<close> loops are two nested folds
  over the same range; the image drawn on is passed along.
\<close>

definition create_text_with_shadow ::
  "image \<Rightarrow> int \<times> int \<Rightarrow> string \<Rightarrow> font \<Rightarrow> nat \<times> nat \<times> nat \<Rightarrow> nat \<times> nat \<times> nat \<Rightarrow> int \<Rightarrow> image" where
  "create_text_with_shadow draw position s f text_color shadow_color shadow_offset =
     (let (x, y) = position;
          draw = fold (\<lambda>offset_x draw.
                   fold (\<lambda>offset_y draw.
                     if offset_x \<noteq> 0 \<or> offset_y \<noteq> 0
                     then draw_text draw (x + offset_x, y + offset_y) s f shadow_color
                     else draw)
                   (py_range (- shadow_offset) (shadow_offset + 1)) draw)
                 (py_range (- shadow_offset) (shadow_offset + 1)) draw
      in draw_text draw (x, y) s f text_color)"

subsection \<open>\<^verbatim>\<open>overlay_metadata\<close>\<close>

definition font_paths :: "string list" where
  "font_paths =
     [''/usr/share/fonts/truetype/dejavu/DejaVuSans-Bold.ttf'',
      ''/usr/share/fonts/truetype/liberation/LiberationSans-Bold.ttf'',
      ''/System/Library/Fonts/Helvetica.ttc'',
      ''C:'' @ [CHR 0x5C] @ ''Windows'' @ [CHR 0x5C] @ ''Fonts'' @ [CHR 0x5C] @ ''arial.ttf'']"

text \<open>
  Lines 131 to 134: the first path that exists is loaded and the loop is
  left; \<open>Inr None\<close> is the loop ending with \<^verbatim>\<open>font\<close> still \<^verbatim>\<open>None\<close>.
\<close>

fun find_font :: "env \<Rightarrow> string list \<Rightarrow> error + font option" where
  "find_font env [] = Inr None"
| "find_font env (font_path # rest) =
     (if path_exists env font_path
      then (case truetype env font_path 24 of Inl e \<Rightarrow> Inl e | Inr f \<Rightarrow> Inr (Some f))
      else find_font env rest)"

text \<open>Lines 122 to 138: any exception of the search ends in the default font.\<close>

definition resolve_font :: "env \<Rightarrow> font" where
  "resolve_font env =
     (case find_font env font_paths of
        Inl e \<Rightarrow> DefaultFont
      | Inr None \<Rightarrow> DefaultFont
      | Inr (Some f) \<Rightarrow> f)"

definition margin :: int where
  "margin = 20"

definition line_spacing :: int where
  "line_spacing = 30"

text \<open>
  A call of \<^verbatim>\<open>create_text_with_shadow\<close> by \<^verbatim>\<open>overlay_metadata\<close>, with the
  exceptions of its \<^verbatim>\<open>draw.text\<close> calls.  Its 24 shadow calls differ in
  the position only, so the first of them raises or none does; the call in
  the text colour comes last.  An exception leaves the function with nothing
  returned.
\<close>

definition draw_line :: "env \<Rightarrow> image \<Rightarrow> int \<times> int \<Rightarrow> string \<Rightarrow> font \<Rightarrow> error + image" where
  "draw_line env draw position line f =
     (case draw_text_raises env (mode draw) f line (0, 0, 0) of
        Some e \<Rightarrow> Inl e
      | None \<Rightarrow>
          (case draw_text_raises env (mode draw) f line (255, 255, 255) of
             Some e \<Rightarrow> Inl e
           | None \<Rightarrow> Inr (create_text_with_shadow draw position line f (255, 255, 255) (0, 0, 0) 2)))"

text \<open>
  Lines 161 to 171: the loop over the left lines; its state is the image
  drawn on and \<^verbatim>\<open>y_position\<close>.
\<close>

fun draw_left :: "env \<Rightarrow> font \<Rightarrow> string list \<Rightarrow> image \<times> int \<Rightarrow> error + (image \<times> int)" where
  "draw_left env f [] (draw, y_position) = Inr (draw, y_position)"
| "draw_left env f (line # rest) (draw, y_position) =
     (case draw_line env draw (margin, y_position) line f of
        Inl e \<Rightarrow> Inl e
      | Inr draw \<Rightarrow> draw_left env f rest (draw, y_position + line_spacing))"

text \<open>
  Lines 175 to 190: the loop over the right lines.  The width of each line
  is measured first; an exception of the measurement leaves the loop.
\<close>

fun draw_right :: "env \<Rightarrow> font \<Rightarrow> int \<Rightarrow> string list \<Rightarrow> image \<times> int \<Rightarrow> error + (image \<times> int)" where
  "draw_right env f w [] (draw, y_position) = Inr (draw, y_position)"
| "draw_right env f w (line # rest) (draw, y_position) =
     (case textbbox env f line of
        Inl e \<Rightarrow> Inl e
      | Inr (b0, b1, b2, b3) \<Rightarrow>
          (let text_width = b2 - b0;
               x_position = w - margin - text_width
           in case draw_line env draw (x_position, y_position) line f of
                Inl e \<Rightarrow> Inl e
              | Inr draw \<Rightarrow> draw_right env f w rest (draw, y_position + line_spacing)))"

definition bind_sum :: "error + 'a \<Rightarrow> ('a \<Rightarrow> error + 'b) \<Rightarrow> error + 'b" where
  "bind_sum r f = (case r of Inl e \<Rightarrow> Inl e | Inr a \<Rightarrow> f a)"

text \<open>
  Lines 117 to 192, after the \<^verbatim>\<open>print\<close>.  Images are values here, so
  a copy that does not raise is the image itself and the drawing context is
  the image drawn on; the caller's image is never changed.
\<close>

definition overlay_lines :: "env \<Rightarrow> image \<Rightarrow> metadata \<Rightarrow> error + image" where
  "overlay_lines env img metadata =
     (case copy_raises env img of
        Some e \<Rightarrow> Inl e
      | None \<Rightarrow>
     (let img_with_metadata = img;
          f = resolve_font env;
          w = width img_with_metadata;
          h = height img_with_metadata
      in bind_sum (dict_get metadata ''camera'') (\<lambda>camera.
         bind_sum (dict_get metadata ''lens'') (\<lambda>lens.
         bind_sum (dict_get metadata ''aperture'') (\<lambda>aperture.
         bind_sum (dict_get metadata ''shutter'') (\<lambda>shutter.
         bind_sum (dict_get metadata ''iso'') (\<lambda>iso.
         let left_text_lines = [camera, lens, aperture @ '' '' @ shutter @ '' '' @ iso]
         in bind_sum (dict_get metadata ''datetime'') (\<lambda>datetime.
            let right_text_lines = [datetime];
                y_position = h - margin - int (length left_text_lines) * line_spacing
            in bind_sum (draw_left env f left_text_lines (img_with_metadata, y_position)) (\<lambda>(draw, y_position).
               let y_position = h - margin - int (length right_text_lines) * line_spacing
               in bind_sum (draw_right env f w right_text_lines (draw, y_position)) (\<lambda>(draw, y_position).
                  Inr draw))))))))))"

definition overlay_metadata :: "env \<Rightarrow> image \<Rightarrow> metadata \<Rightarrow> image prog" where
  "overlay_metadata env img metadata =
     bind (print env Overlaying) (\<lambda>_. lift (overlay_lines env img metadata))"

subsection \<open>\<^verbatim>\<open>main\<close>\<close>

text \<open>Lines 205 and 206: one line per item, in the order of insertion.\<close>

primrec print_items :: "env \<Rightarrow> metadata \<Rightarrow> unit prog" where
  "print_items env [] = return ()"
| "print_items env (kv # rest) =
     bind (print env (MetadataItem (fst kv) (snd kv))) (\<lambda>_. print_items env rest)"

text \<open>
  \<^verbatim>\<open>img.save(path, fmt, quality=quality)\<close>: the file is left as the writer
  leaves it, whether or not it raises.
\<close>

definition image_save :: "env \<Rightarrow> image \<Rightarrow> string \<Rightarrow> string \<Rightarrow> nat \<Rightarrow> unit prog" where
  "image_save env img path fmt quality =
     (\<lambda>w. let (new, exc) = save_file env img fmt quality (files w path)
          in (case exc of None \<Rightarrow> Inr () | Some e \<Rightarrow> Inl e,
              w\<lparr>files := (files w)(path := new)\<rparr>))"

text \<open>
  Lines 198 to 215: the body of the \<^verbatim>\<open>try\<close>.  The line of success is
  printed inside it, after the save.
\<close>

definition main_try :: "env \<Rightarrow> int prog" where
  "main_try env =
     bind (download_image env SAMPLE_IMAGE_URL) (\<lambda>img.
     bind (extract_exif_data env SAMPLE_IMAGE_URL) (\<lambda>metadata.
     bind (print env ExtractedHeader) (\<lambda>_.
     bind (print_items env metadata) (\<lambda>_.
     bind (overlay_metadata env img metadata) (\<lambda>image_with_metadata.
     bind (image_save env image_with_metadata OUTPUT_FILENAME ''JPEG'' 95) (\<lambda>_.
     bind (print env (Success OUTPUT_FILENAME)) (\<lambda>_.
     return 0)))))))"

text \<open>
  Lines 195 to 218.  The result is the value \<^verbatim>\<open>main\<close> returns, which
  \<^verbatim>\<open>sys.exit\<close> makes the exit code of the process, and the world it leaves.
\<close>

definition main :: "env \<Rightarrow> world \<Rightarrow> int \<times> world" where
  "main env w =
     (case main_try env w of
        (Inr rc, w') \<Rightarrow> (rc, w')
      | (Inl e, w') \<Rightarrow> (1, snd (print_err (ErrorMessage e) w')))"

subsection \<open>The single-fetch pipeline of the design notes\<close>

text \<open>
  The specification asks a reimplementation to fetch once and to decode both
  the image and the EXIF tags from the one byte buffer.  This is \<^const>\<open>main\<close>
  with that change and nothing else: the second request is gone and
  \<^verbatim>\<open>process_file\<close> reads the bytes of the first.
\<close>

definition single_fetch_try :: "env \<Rightarrow> int prog" where
  "single_fetch_try env =
     bind (print env (Downloading SAMPLE_IMAGE_URL)) (\<lambda>_.
     bind (requests_get env SAMPLE_IMAGE_URL) (\<lambda>response.
     bind (lift (raise_for_status response)) (\<lambda>_.
     bind (Image_open env (content response)) (\<lambda>img.
     bind (print env Extracting) (\<lambda>_.
     bind (exifread_process_file env (content response)) (\<lambda>tags.
     bind (lift (metadata_of_tags tags)) (\<lambda>metadata.
     bind (print env ExtractedHeader) (\<lambda>_.
     bind (print_items env metadata) (\<lambda>_.
     bind (overlay_metadata env img metadata) (\<lambda>image_with_metadata.
     bind (image_save env image_with_metadata OUTPUT_FILENAME ''JPEG'' 95) (\<lambda>_.
     bind (print env (Success OUTPUT_FILENAME)) (\<lambda>_.
     return 0))))))))))))"

definition single_fetch_main :: "env \<Rightarrow> world \<Rightarrow> int \<times> world" where
  "single_fetch_main env w =
     (case single_fetch_try env w of
        (Inr rc, w') \<Rightarrow> (rc, w')
      | (Inl e, w') \<Rightarrow> (1, snd (print_err (ErrorMessage e) w')))"

subsection \<open>The stages of \<^verbatim>\<open>main\<close>\<close>

text \<open>
  Lines 198 to 209 of \<^verbatim>\<open>main\<close>: everything before the save, giving the
  metadata and the composited image that \<^verbatim>\<open>main\<close> prints and saves.
\<close>

definition render_stages :: "env \<Rightarrow> (metadata \<times> image) prog" where
  "render_stages env =
     bind (download_image env SAMPLE_IMAGE_URL) (\<lambda>img.
     bind (extract_exif_data env SAMPLE_IMAGE_URL) (\<lambda>metadata.
     bind (print env ExtractedHeader) (\<lambda>_.
     bind (print_items env metadata) (\<lambda>_.
     bind (overlay_metadata env img metadata) (\<lambda>image_with_metadata.
     return (metadata, image_with_metadata))))))"

text \<open>The same stages of the single-fetch pipeline.\<close>

definition single_fetch_stages :: "env \<Rightarrow> (metadata \<times> image) prog" where
  "single_fetch_stages env =
     bind (print env (Downloading SAMPLE_IMAGE_URL)) (\<lambda>_.
     bind (requests_get env SAMPLE_IMAGE_URL) (\<lambda>response.
     bind (lift (raise_for_status response)) (\<lambda>_.
     bind (Image_open env (content response)) (\<lambda>img.
     bind (print env Extracting) (\<lambda>_.
     bind (exifread_process_file env (content response)) (\<lambda>tags.
     bind (lift (metadata_of_tags tags)) (\<lambda>metadata.
     bind (print env ExtractedHeader) (\<lambda>_.
     bind (print_items env metadata) (\<lambda>_.
     bind (overlay_metadata env img metadata) (\<lambda>image_with_metadata.
     return (metadata, image_with_metadata)))))))))))"

text \<open>Lines 211 to 215 of \<^verbatim>\<open>main\<close>: the save and the report of success.\<close>

definition save_and_report :: "env \<Rightarrow> image \<Rightarrow> int prog" where
  "save_and_report env image_with_metadata =
     bind (image_save env image_with_metadata OUTPUT_FILENAME ''JPEG'' 95) (\<lambda>_.
     bind (print env (Success OUTPUT_FILENAME)) (\<lambda>_.
     return 0))"

text \<open>
  Lines 204 to 209 of \<^verbatim>\<open>main\<close>: the metadata is printed and overlaid
  on the image.
\<close>

definition print_and_overlay :: "env \<Rightarrow> image \<Rightarrow> metadata \<Rightarrow> (metadata \<times> image) prog" where
  "print_and_overlay env img metadata =
     bind (print env ExtractedHeader) (\<lambda>_.
     bind (print_items env metadata) (\<lambda>_.
     bind (overlay_metadata env img metadata) (\<lambda>image_with_metadata.
     return (metadata, image_with_metadata))))"

text \<open>
  A statement that leaves the files alone and adds nothing but lines of the
  libraries to the error stream.
\<close>

definition keeps_files :: "'a prog \<Rightarrow> bool" where
  "keeps_files m =
     (\<forall>w. files (snd (m w)) = files w \<and> (\<exists>ls. stderr (snd (m w)) = stderr w @ map LogLine ls))"

text \<open>
  A statement whose outcome does not depend on the world and that only adds
  lines to standard output.
\<close>

definition only_prints :: "'a prog \<Rightarrow> bool" where
  "only_prints m = (\<exists>r ms. \<forall>w. m w = (r, w\<lparr>stdout := stdout w @ ms\<rparr>))"

section \<open>Sample inputs\<close>

text \<open>
  A world with nothing printed and no file, and an environment in which every
  library call succeeds: each request is answered with status 200 and a
  two-byte body, the decoder gives a 100 by 100 RGB image and the tag set
  \<open>ts\<close>, no library writes to the error stream, no font file exists,
  text is drawn on every image that is not greyscale, every text measures ten
  pixels a character, the writer stores the pixels, and standard output
  encodes every line.
\<close>

definition w0 :: world where
  "w0 = \<lparr>requests_made = 0, stdout = [], stderr = [], files = Map.empty\<rparr>"

definition sample_env :: "tags \<Rightarrow> env" where
  "sample_env ts =
     \<lparr>http_get = (\<lambda>url n. Inr \<lparr>status_code = 200, content = [255, 216]\<rparr>),
      image_open = (\<lambda>b. Inr \<lparr>width = 100, height = 100, mode = ''RGB'', pixels = b, drawn = []\<rparr>),
      image_open_warnings = (\<lambda>b. []),
      process_file = (\<lambda>b. Inr ts),
      exifread_log = (\<lambda>b. []),
      path_exists = (\<lambda>p. False),
      truetype = (\<lambda>p n. Inr (FreeTypeFont p n)),
      copy_raises = (\<lambda>img. None),
      draw_text_raises = (\<lambda>m f s c. if m = ''L'' then Some (LibraryError ''TypeError'') else None),
      textbbox = (\<lambda>f s. Inr (0, 0, 10 * int (length s), 12)),
      save_file = (\<lambda>img fmt q old. (Some (pixels img), None)),
      stdout_encodes = (\<lambda>m. True)\<rparr>"

text \<open>
  The image and the metadata of the end-to-end example, on a 640 by 480
  image, and an environment in which the default font cannot be measured (as
  with a Pillow whose \<^verbatim>\<open>textbbox\<close> only supports TrueType fonts) and no
  font file exists.
\<close>

definition sample_image :: image where
  "sample_image = \<lparr>width = 640, height = 480, mode = ''RGB'', pixels = [1, 2, 3], drawn = []\<rparr>"

definition sample_metadata :: metadata where
  "sample_metadata =
     [(''camera'', ''Test Cam''), (''lens'', ''Test Lens''), (''aperture'', ''f/2.0''),
      (''shutter'', ''1/100s''), (''iso'', ''ISO 200''), (''datetime'', ''2020-01-01 00:00:00'')]"

definition unmeasurable_env :: env where
  "unmeasurable_env =
     (sample_env Map.empty)
       \<lparr>textbbox := (\<lambda>f s. case f of
            DefaultFont \<Rightarrow> Inl (LibraryError ''ValueError'')
          | FreeTypeFont p n \<Rightarrow> Inr (0, 0, 10 * int (length s), 12))\<rparr>"

text \<open>
  More situations: a writer that raises after opening its target (an
  existing file is left empty, as Pillow's \<^verbatim>\<open>save\<close> leaves it when the
  encoder raises), a server that answers every request with status 500, a
  server that answers with status 300 and the image as body, a world in
  which a previous run has left an output file, a standard output whose
  encoding has ASCII only, an \<^verbatim>\<open>exifread\<close> that logs a warning about the
  file, and a file that decodes to a greyscale image.
\<close>

definition failing_writer_env :: env where
  "failing_writer_env =
     (sample_env Map.empty)
       \<lparr>save_file := (\<lambda>img fmt q old.
          (case old of None \<Rightarrow> None | Some b \<Rightarrow> Some [], Some (LibraryError ''OSError'')))\<rparr>"

definition server_error_env :: env where
  "server_error_env =
     (sample_env Map.empty)\<lparr>http_get := (\<lambda>url n. Inr \<lparr>status_code = 500, content = []\<rparr>)\<rparr>"

definition multiple_choices_env :: env where
  "multiple_choices_env =
     (sample_env Map.empty)\<lparr>http_get := (\<lambda>url n. Inr \<lparr>status_code = 300, content = [255, 216]\<rparr>)\<rparr>"

definition w_previous_run :: world where
  "w_previous_run = w0\<lparr>files := [OUTPUT_FILENAME \<mapsto> [7, 8, 9]]\<rparr>"

definition ascii_stdout_env :: env where
  "ascii_stdout_env = (sample_env Map.empty)\<lparr>stdout_encodes := (\<lambda>m. False)\<rparr>"

definition logging_env :: env where
  "logging_env =
     (sample_env Map.empty)\<lparr>exifread_log := (\<lambda>b. [''File format not recognized.''])\<rparr>"

definition greyscale_image :: image where
  "greyscale_image = sample_image\<lparr>mode := ''L''\<rparr>"

section \<open>Splitting and unpacking\<close>

lemma py_split_nonempty: "py_split c s \<noteq> []"
  by (induction s) (auto split: list.splits)

lemma py_split_no_sep: "c \<notin> set s \<Longrightarrow> py_split c s = [s]"
  by (induction s) auto

lemma py_split_one_sep:
  "c \<notin> set a \<Longrightarrow> c \<notin> set b \<Longrightarrow> py_split c (a @ c # b) = [a, b]"
  by (induction a) (auto simp: py_split_no_sep)

lemma length_py_split: "length (py_split c s) = Suc (count_list s c)"
  by (induction s) (auto simp: py_split_nonempty split: list.splits)

lemma py_split_single: "py_split c s = [a] \<Longrightarrow> s = a \<and> c \<notin> set a"
proof (induction s arbitrary: a)
  case Nil
  then show ?case by simp
next
  case (Cons x xs)
  show ?case
  proof (cases "x = c")
    case True
    with Cons.prems show ?thesis by (simp add: py_split_nonempty)
  next
    case False
    with Cons.prems obtain p where "py_split c xs = [p]" and "a = x # p"
      by (auto simp: py_split_nonempty split: list.splits)
    with Cons.IH [of p] False show ?thesis by auto
  qed
qed

lemma py_split_pair: "py_split c s = [a, b] \<Longrightarrow> s = a @ c # b \<and> c \<notin> set a \<and> c \<notin> set b"
proof (induction s arbitrary: a)
  case Nil
  then show ?case by simp
next
  case (Cons x xs)
  show ?case
  proof (cases "x = c")
    case True
    with Cons.prems have "a = []" and "py_split c xs = [b]" by auto
    with py_split_single [of c xs b] True show ?thesis by auto
  next
    case False
    with Cons.prems obtain p where "py_split c xs = [p, b]" and "a = x # p"
      by (auto simp: py_split_nonempty split: list.splits)
    with Cons.IH [of p] False show ?thesis by auto
  qed
qed

lemma unpack2_Inr: "unpack2 xs = Inr (a, b) \<longleftrightarrow> xs = [a, b]"
  by (cases xs rule: unpack2.cases) auto

lemma unpack2_Inl: "unpack2 xs = Inl e \<longleftrightarrow> length xs \<noteq> 2 \<and> e = ValueError"
  by (cases xs rule: unpack2.cases) auto

section \<open>The metadata extractor\<close>

text \<open>
  Once the request is answered without an error status and the bytes are
  decoded to a tag set, what \<^const>\<open>extract_exif_data\<close> returns or raises is
  what the field rules give on that tag set.
\<close>

lemma extract_exif_data_decoded:
  assumes "http_get env url (requests_made w) = Inr r"
    and "raise_for_status r = Inr ()"
    and "process_file env (content r) = Inr tags"
  shows "fst (extract_exif_data env url w) = metadata_of_tags tags"
  using assms
  by (simp add: extract_exif_data_def bind_def print_def requests_get_def lift_def
      exifread_process_file_def logging_def)

lemma metadata_of_tags_Inr:
  "metadata_of_tags tags = Inr md \<Longrightarrow>
     \<exists>a d. aperture_field tags = Inr a \<and> datetime_field tags = Inr d \<and>
       md = [(''camera'', camera_field tags), (''lens'', lens_field tags), (''aperture'', a),
             (''shutter'', shutter_field tags), (''iso'', iso_field tags), (''datetime'', d)]"
  by (auto simp: metadata_of_tags_def dict_set_def Let_def split: sum.splits)

lemma metadata_of_tags_aperture_error:
  "aperture_field tags = Inl e \<Longrightarrow> metadata_of_tags tags = Inl e"
  by (simp add: metadata_of_tags_def Let_def)

lemma metadata_of_tags_datetime_error:
  "aperture_field tags = Inr a \<Longrightarrow> datetime_field tags = Inl e \<Longrightarrow> metadata_of_tags tags = Inl e"
  by (simp add: metadata_of_tags_def Let_def)

lemma sample_env_decoded:
  "http_get (sample_env ts) url (requests_made w) = Inr \<lparr>status_code = 200, content = [255, 216]\<rparr>"
  "raise_for_status \<lparr>status_code = 200, content = [255, 216]\<rparr> = Inr ()"
  "process_file (sample_env ts) (content \<lparr>status_code = 200, content = [255, 216]\<rparr>) = Inr ts"
  by (simp_all add: sample_env_def raise_for_status_def)

text \<open>
  C1.  Whenever extraction returns a metadata dictionary, the dictionary has
  exactly the six keys camera, lens, aperture, shutter, iso and datetime (in
  this order, so none is absent), and each field whose source tag is missing
  from the tag set holds its fallback literal: "Unknown Camera" (the model
  tag, which the camera rule needs in every case), "Unknown Lens", "f/?",
  "?s", "ISO ?" and "Unknown Date".
\<close>

theorem extract_exif_data_fully_populated:
  assumes "http_get env url (requests_made w) = Inr r"
    and "raise_for_status r = Inr ()"
    and "process_file env (content r) = Inr tags"
    and "fst (extract_exif_data env url w) = Inr md"
  shows "map fst md = [''camera'', ''lens'', ''aperture'', ''shutter'', ''iso'', ''datetime'']
    \<and> (tags ''Image Model'' = None \<longrightarrow> map_of md ''camera'' = Some ''Unknown Camera'')
    \<and> (tags ''EXIF LensModel'' = None \<longrightarrow> map_of md ''lens'' = Some ''Unknown Lens'')
    \<and> (tags ''EXIF FNumber'' = None \<longrightarrow> map_of md ''aperture'' = Some ''f/?'')
    \<and> (tags ''EXIF ExposureTime'' = None \<longrightarrow> map_of md ''shutter'' = Some ''?s'')
    \<and> (tags ''EXIF ISOSpeedRatings'' = None \<longrightarrow> map_of md ''iso'' = Some ''ISO ?'')
    \<and> (tags ''EXIF DateTimeOriginal'' = None \<longrightarrow> map_of md ''datetime'' = Some ''Unknown Date'')"
proof -
  from assms have "metadata_of_tags tags = Inr md"
    by (simp add: extract_exif_data_decoded)
  from metadata_of_tags_Inr [OF this] obtain a d where
    a: "aperture_field tags = Inr a" and d: "datetime_field tags = Inr d" and
    md: "md = [(''camera'', camera_field tags), (''lens'', lens_field tags), (''aperture'', a),
               (''shutter'', shutter_field tags), (''iso'', iso_field tags), (''datetime'', d)]"
    by blast
  have "tags ''EXIF FNumber'' = None \<longrightarrow> a = ''f/?''"
    using a by (auto simp: aperture_field_def)
  moreover have "tags ''EXIF DateTimeOriginal'' = None \<longrightarrow> d = ''Unknown Date''"
    using d by (auto simp: datetime_field_def)
  ultimately show ?thesis
    by (simp add: md camera_field_def lens_field_def shutter_field_def iso_field_def)
qed

theorem extract_exif_data_fully_populated_witness:
  "fst (extract_exif_data (sample_env Map.empty) SAMPLE_IMAGE_URL w0) =
     Inr [(''camera'', ''Unknown Camera''), (''lens'', ''Unknown Lens''), (''aperture'', ''f/?''),
          (''shutter'', ''?s''), (''iso'', ''ISO ?''), (''datetime'', ''Unknown Date'')]
   \<and> map fst [(''camera'', ''Unknown Camera''), (''lens'', ''Unknown Lens''), (''aperture'', ''f/?''),
          (''shutter'', ''?s''), (''iso'', ''ISO ?''), (''datetime'', ''Unknown Date'')]
      = [''camera'', ''lens'', ''aperture'', ''shutter'', ''iso'', ''datetime'']"
proof -
  have h: "fst (extract_exif_data (sample_env Map.empty) SAMPLE_IMAGE_URL w0) =
     Inr [(''camera'', ''Unknown Camera''), (''lens'', ''Unknown Lens''), (''aperture'', ''f/?''),
          (''shutter'', ''?s''), (''iso'', ''ISO ?''), (''datetime'', ''Unknown Date'')]"
    by (simp add: extract_exif_data_decoded [OF sample_env_decoded] metadata_of_tags_def
        dict_set_def camera_field_def lens_field_def aperture_field_def shutter_field_def
        iso_field_def datetime_field_def)
  from extract_exif_data_fully_populated [OF sample_env_decoded h] h show ?thesis
    by blast
qed

section \<open>Field rules\<close>

text \<open>The float computations the examples of the specification need.\<close>

lemma py_float_8: "py_float ''8'' = Inr (Finite False 4503599627370496 (- 49))"
  by code_simp

lemma py_float_1: "py_float ''1'' = Inr (Finite False 4503599627370496 (- 52))"
  by code_simp

lemma py_float_0: "py_float ''0'' = Inr (Finite False 0 0)"
  by code_simp

lemma float_truediv_8_1:
  "float_truediv (Finite False 4503599627370496 (- 49)) (Finite False 4503599627370496 (- 52))
     = Inr (Finite False 4503599627370496 (- 49))"
  by code_simp

lemma format_1f_8: "format_1f (Finite False 4503599627370496 (- 49)) = ''8.0''"
  by code_simp

lemma aperture_field_absent: "tags ''EXIF FNumber'' = None \<Longrightarrow> aperture_field tags = Inr ''f/?''"
  by (simp add: aperture_field_def)

lemma aperture_field_plain:
  "tags ''EXIF FNumber'' = Some (IfdTag s) \<Longrightarrow> CHR ''/'' \<notin> set s \<Longrightarrow>
     aperture_field tags = Inr (''f/'' @ s)"
  by (simp add: aperture_field_def)

lemma aperture_field_fraction:
  assumes "tags ''EXIF FNumber'' = Some (IfdTag s)" and "CHR ''/'' \<in> set s"
    and "aperture_field tags = Inr a"
  shows "\<exists>num denom n d v. s = num @ ''/'' @ denom \<and> CHR ''/'' \<notin> set num \<and> CHR ''/'' \<notin> set denom
           \<and> py_float num = Inr n \<and> py_float denom = Inr d \<and> float_truediv n d = Inr v
           \<and> a = ''f/'' @ format_1f v"
proof -
  from assms obtain num denom n d v where
    u: "unpack2 (py_split (CHR ''/'') s) = Inr (num, denom)" and
    n: "py_float num = Inr n" and d: "py_float denom = Inr d" and
    v: "float_truediv n d = Inr v" and a: "a = ''f/'' @ format_1f v"
    by (auto simp: aperture_field_def split: sum.splits)
  from u have "py_split (CHR ''/'') s = [num, denom]"
    by (simp add: unpack2_Inr)
  from py_split_pair [OF this] have "s = num @ ''/'' @ denom \<and> CHR ''/'' \<notin> set num \<and> CHR ''/'' \<notin> set denom"
    by simp
  with n d v a show ?thesis by blast
qed

lemma aperture_field_zero_division:
  assumes "tags ''EXIF FNumber'' = Some (IfdTag (num @ ''/'' @ denom))"
    and "CHR ''/'' \<notin> set num" and "CHR ''/'' \<notin> set denom"
    and "py_float num = Inr n" and "py_float denom = Inr (Finite neg 0 e)"
  shows "aperture_field tags = Inl ZeroDivisionError"
  using assms py_split_one_sep [of "CHR ''/''" num denom]
  by (simp add: aperture_field_def)

lemma datetime_field_absent:
  "tags ''EXIF DateTimeOriginal'' = None \<Longrightarrow> datetime_field tags = Inr ''Unknown Date''"
  by (simp add: datetime_field_def)

lemma datetime_field_one_space:
  "tags ''EXIF DateTimeOriginal'' = Some (IfdTag (d @ '' '' @ t)) \<Longrightarrow>
   CHR '' '' \<notin> set d \<Longrightarrow> CHR '' '' \<notin> set t \<Longrightarrow>
     datetime_field tags = Inr (py_replace (CHR '':'') (CHR ''-'') d @ '' '' @ t)"
  using py_split_one_sep [of "CHR '' ''" d t]
  by (simp add: datetime_field_def)

lemma datetime_field_malformed:
  "tags ''EXIF DateTimeOriginal'' = Some (IfdTag s) \<Longrightarrow> count_list s (CHR '' '') \<noteq> 1 \<Longrightarrow>
     datetime_field tags = Inl ValueError"
proof -
  assume t: "tags ''EXIF DateTimeOriginal'' = Some (IfdTag s)" and c: "count_list s (CHR '' '') \<noteq> 1"
  from c have "length (py_split (CHR '' '') s) \<noteq> 2"
    by (simp add: length_py_split)
  then have "unpack2 (py_split (CHR '' '') s) = Inl ValueError"
    by (simp add: unpack2_Inl)
  with t show ?thesis by (simp add: datetime_field_def)
qed

lemma metadata_of_tags_ok:
  "aperture_field tags = Inr a \<Longrightarrow> datetime_field tags = Inr d \<Longrightarrow>
     metadata_of_tags tags =
       Inr [(''camera'', camera_field tags), (''lens'', lens_field tags), (''aperture'', a),
            (''shutter'', shutter_field tags), (''iso'', iso_field tags), (''datetime'', d)]"
  by (simp add: metadata_of_tags_def dict_set_def)

text \<open>
  What \<^const>\<open>py_strip\<close> returns is the input without a whitespace prefix and a
  whitespace suffix, and it neither starts nor ends with whitespace.
\<close>

lemma dropWhile_rev_split:
  "u = rev (dropWhile P (rev u)) @ rev (takeWhile P (rev u))"
proof -
  have "rev (takeWhile P (rev u) @ dropWhile P (rev u)) = rev (rev u)"
    by (simp only: takeWhile_dropWhile_id)
  then show ?thesis
    by (simp only: rev_append rev_rev_ident)
qed

lemma py_strip_decompose:
  "\<exists>l r. s = l @ py_strip s @ r \<and> list_all py_isspace l \<and> list_all py_isspace r"
proof -
  let ?u = "dropWhile py_isspace s"
  have 1: "s = takeWhile py_isspace s @ ?u" by simp
  have 2: "?u = py_strip s @ rev (takeWhile py_isspace (rev ?u))"
    unfolding py_strip_def by (rule dropWhile_rev_split)
  have 3: "list_all py_isspace (takeWhile py_isspace s)"
    by (simp add: list_all_iff) (meson set_takeWhileD)
  have 4: "list_all py_isspace (rev (takeWhile py_isspace (rev ?u)))"
    by (simp add: list_all_iff) (meson set_takeWhileD)
  from 1 2 have "s = takeWhile py_isspace s @ py_strip s @ rev (takeWhile py_isspace (rev ?u))"
    by simp
  with 3 4 show ?thesis by blast
qed

lemma py_strip_ends:
  assumes "py_strip s \<noteq> []"
  shows "\<not> py_isspace (hd (py_strip s)) \<and> \<not> py_isspace (last (py_strip s))"
proof -
  let ?u = "dropWhile py_isspace s"
  let ?v = "dropWhile py_isspace (rev ?u)"
  from assms have v: "?v \<noteq> []" by (simp add: py_strip_def)
  then have l: "\<not> py_isspace (hd ?v)" by (rule hd_dropWhile)
  have "last (py_strip s) = hd ?v"
    using v by (simp add: py_strip_def last_rev)
  with l have last: "\<not> py_isspace (last (py_strip s))" by simp
  have u: "?u \<noteq> []"
  proof
    assume "?u = []"
    then have "?v = []" by (simp only: rev.simps dropWhile.simps)
    with v show False by (simp only: not_True_eq_False simp_thms)
  qed
  then have hu: "\<not> py_isspace (hd ?u)" by (rule hd_dropWhile)
  have "?u = py_strip s @ rev (takeWhile py_isspace (rev ?u))"
    unfolding py_strip_def by (rule dropWhile_rev_split)
  then have "hd ?u = hd (py_strip s @ rev (takeWhile py_isspace (rev ?u)))" by simp
  with assms have "hd ?u = hd (py_strip s)" by simp
  with hu last show ?thesis by simp
qed

text \<open>
  C3.  Whenever extraction returns a metadata dictionary: if the f-number
  tag is absent the aperture field is "f/?"; if its text has no slash the
  field is "f/" followed by that text verbatim ("4" gives "f/4"); if its
  text has a slash, the text is one numerator and one denominator around a
  single slash, both read by \<^verbatim>\<open>float\<close>, and the field is "f/" followed
  by their float quotient formatted with one digit after the point ("8/1"
  gives "f/8.0").
\<close>

theorem aperture_rule:
  assumes "http_get env url (requests_made w) = Inr r"
    and "raise_for_status r = Inr ()"
    and "process_file env (content r) = Inr tags"
    and "fst (extract_exif_data env url w) = Inr md"
  shows "(tags ''EXIF FNumber'' = None \<longrightarrow> map_of md ''aperture'' = Some ''f/?'')
    \<and> (\<forall>s. tags ''EXIF FNumber'' = Some (IfdTag s) \<and> CHR ''/'' \<notin> set s \<longrightarrow>
           map_of md ''aperture'' = Some (''f/'' @ s))
    \<and> (\<forall>s. tags ''EXIF FNumber'' = Some (IfdTag s) \<and> CHR ''/'' \<in> set s \<longrightarrow>
           (\<exists>num denom n d v. s = num @ ''/'' @ denom
              \<and> CHR ''/'' \<notin> set num \<and> CHR ''/'' \<notin> set denom
              \<and> py_float num = Inr n \<and> py_float denom = Inr d \<and> float_truediv n d = Inr v
              \<and> map_of md ''aperture'' = Some (''f/'' @ format_1f v)))"
proof -
  from assms have "metadata_of_tags tags = Inr md"
    by (simp add: extract_exif_data_decoded)
  from metadata_of_tags_Inr [OF this] obtain a d where
    a: "aperture_field tags = Inr a" and
    md: "md = [(''camera'', camera_field tags), (''lens'', lens_field tags), (''aperture'', a),
               (''shutter'', shutter_field tags), (''iso'', iso_field tags), (''datetime'', d)]"
    by blast
  have m: "map_of md ''aperture'' = Some a" by (simp add: md)
  show ?thesis
  proof (intro conjI allI impI)
    assume "tags ''EXIF FNumber'' = None"
    with a show "map_of md ''aperture'' = Some ''f/?''"
      by (simp add: m aperture_field_absent)
  next
    fix s assume "tags ''EXIF FNumber'' = Some (IfdTag s) \<and> CHR ''/'' \<notin> set s"
    with a show "map_of md ''aperture'' = Some (''f/'' @ s)"
      by (simp add: m aperture_field_plain)
  next
    fix s assume "tags ''EXIF FNumber'' = Some (IfdTag s) \<and> CHR ''/'' \<in> set s"
    with aperture_field_fraction [of tags s a] a m
    show "\<exists>num denom n d v. s = num @ ''/'' @ denom
              \<and> CHR ''/'' \<notin> set num \<and> CHR ''/'' \<notin> set denom
              \<and> py_float num = Inr n \<and> py_float denom = Inr d \<and> float_truediv n d = Inr v
              \<and> map_of md ''aperture'' = Some (''f/'' @ format_1f v)"
      by simp
  qed
qed

theorem aperture_rule_witness:
  "fst (extract_exif_data (sample_env [''EXIF FNumber'' \<mapsto> IfdTag ''8/1'']) SAMPLE_IMAGE_URL w0) =
     Inr [(''camera'', ''Unknown Camera''), (''lens'', ''Unknown Lens''), (''aperture'', ''f/8.0''),
          (''shutter'', ''?s''), (''iso'', ''ISO ?''), (''datetime'', ''Unknown Date'')]
   \<and> fst (extract_exif_data (sample_env [''EXIF FNumber'' \<mapsto> IfdTag ''4'']) SAMPLE_IMAGE_URL w0) =
     Inr [(''camera'', ''Unknown Camera''), (''lens'', ''Unknown Lens''), (''aperture'', ''f/4''),
          (''shutter'', ''?s''), (''iso'', ''ISO ?''), (''datetime'', ''Unknown Date'')]
   \<and> fst (extract_exif_data (sample_env [''Image Model'' \<mapsto> IfdTag ''EOS 40D'']) SAMPLE_IMAGE_URL w0) =
     Inr [(''camera'', ''EOS 40D''), (''lens'', ''Unknown Lens''), (''aperture'', ''f/?''),
          (''shutter'', ''?s''), (''iso'', ''ISO ?''), (''datetime'', ''Unknown Date'')]"
proof -
  have 1: "fst (extract_exif_data (sample_env [''EXIF FNumber'' \<mapsto> IfdTag ''8/1'']) SAMPLE_IMAGE_URL w0) =
     Inr [(''camera'', ''Unknown Camera''), (''lens'', ''Unknown Lens''), (''aperture'', ''f/8.0''),
          (''shutter'', ''?s''), (''iso'', ''ISO ?''), (''datetime'', ''Unknown Date'')]"
    by (simp add: extract_exif_data_decoded [OF sample_env_decoded] metadata_of_tags_def
        dict_set_def camera_field_def lens_field_def aperture_field_def shutter_field_def
        iso_field_def datetime_field_def py_float_8 py_float_1 float_truediv_8_1 format_1f_8
        del: float_truediv.simps)
  have 2: "fst (extract_exif_data (sample_env [''EXIF FNumber'' \<mapsto> IfdTag ''4'']) SAMPLE_IMAGE_URL w0) =
     Inr [(''camera'', ''Unknown Camera''), (''lens'', ''Unknown Lens''), (''aperture'', ''f/4''),
          (''shutter'', ''?s''), (''iso'', ''ISO ?''), (''datetime'', ''Unknown Date'')]"
    by (simp add: extract_exif_data_decoded [OF sample_env_decoded] metadata_of_tags_def
        dict_set_def camera_field_def lens_field_def aperture_field_def shutter_field_def
        iso_field_def datetime_field_def)
  have 3: "fst (extract_exif_data (sample_env [''Image Model'' \<mapsto> IfdTag ''EOS 40D'']) SAMPLE_IMAGE_URL w0) =
     Inr [(''camera'', ''EOS 40D''), (''lens'', ''Unknown Lens''), (''aperture'', ''f/?''),
          (''shutter'', ''?s''), (''iso'', ''ISO ?''), (''datetime'', ''Unknown Date'')]"
    by (simp add: extract_exif_data_decoded [OF sample_env_decoded] metadata_of_tags_def
        dict_set_def camera_field_def lens_field_def aperture_field_def shutter_field_def
        iso_field_def datetime_field_def)
  from aperture_rule [OF sample_env_decoded 1] aperture_rule [OF sample_env_decoded 2]
    aperture_rule [OF sample_env_decoded 3] 1 2 3
  show ?thesis by blast
qed

text \<open>
  C4.  Whenever extraction returns a metadata dictionary: if both the make
  and the model tag are present the camera field is the make, one space and
  the model, stripped of surrounding whitespace; if only the model is present
  it is the model alone; if the model is absent (whether or not the make is
  present) it is the literal "Unknown Camera".
\<close>

theorem camera_rule:
  assumes "http_get env url (requests_made w) = Inr r"
    and "raise_for_status r = Inr ()"
    and "process_file env (content r) = Inr tags"
    and "fst (extract_exif_data env url w) = Inr md"
  shows "(\<forall>mk mo. tags ''Image Make'' = Some mk \<and> tags ''Image Model'' = Some mo \<longrightarrow>
            map_of md ''camera'' = Some (py_strip (printable mk @ '' '' @ printable mo)))
    \<and> (\<forall>mo. tags ''Image Make'' = None \<and> tags ''Image Model'' = Some mo \<longrightarrow>
            map_of md ''camera'' = Some (printable mo))
    \<and> (tags ''Image Model'' = None \<longrightarrow> map_of md ''camera'' = Some ''Unknown Camera'')"
proof -
  from assms have "metadata_of_tags tags = Inr md"
    by (simp add: extract_exif_data_decoded)
  from metadata_of_tags_Inr [OF this]
  have "map_of md ''camera'' = Some (camera_field tags)"
    by auto
  then show ?thesis
    by (auto simp: camera_field_def)
qed

theorem camera_rule_witness:
  "fst (extract_exif_data
      (sample_env [''Image Make'' \<mapsto> IfdTag ''Canon'', ''Image Model'' \<mapsto> IfdTag ''EOS 40D''])
      SAMPLE_IMAGE_URL w0) =
     Inr [(''camera'', ''Canon EOS 40D''), (''lens'', ''Unknown Lens''), (''aperture'', ''f/?''),
          (''shutter'', ''?s''), (''iso'', ''ISO ?''), (''datetime'', ''Unknown Date'')]
   \<and> fst (extract_exif_data (sample_env [''Image Model'' \<mapsto> IfdTag ''EOS 40D'']) SAMPLE_IMAGE_URL w0) =
     Inr [(''camera'', ''EOS 40D''), (''lens'', ''Unknown Lens''), (''aperture'', ''f/?''),
          (''shutter'', ''?s''), (''iso'', ''ISO ?''), (''datetime'', ''Unknown Date'')]
   \<and> fst (extract_exif_data (sample_env [''Image Make'' \<mapsto> IfdTag ''Canon'']) SAMPLE_IMAGE_URL w0) =
     Inr [(''camera'', ''Unknown Camera''), (''lens'', ''Unknown Lens''), (''aperture'', ''f/?''),
          (''shutter'', ''?s''), (''iso'', ''ISO ?''), (''datetime'', ''Unknown Date'')]"
proof -
  have s: "py_strip ''Canon EOS 40D'' = ''Canon EOS 40D''"
    by (simp add: py_strip_def py_isspace_def)
  have 1: "fst (extract_exif_data
      (sample_env [''Image Make'' \<mapsto> IfdTag ''Canon'', ''Image Model'' \<mapsto> IfdTag ''EOS 40D''])
      SAMPLE_IMAGE_URL w0) =
     Inr [(''camera'', ''Canon EOS 40D''), (''lens'', ''Unknown Lens''), (''aperture'', ''f/?''),
          (''shutter'', ''?s''), (''iso'', ''ISO ?''), (''datetime'', ''Unknown Date'')]"
    by (simp add: extract_exif_data_decoded [OF sample_env_decoded] metadata_of_tags_def
        dict_set_def camera_field_def lens_field_def aperture_field_def shutter_field_def
        iso_field_def datetime_field_def s)
  have 2: "fst (extract_exif_data (sample_env [''Image Model'' \<mapsto> IfdTag ''EOS 40D'']) SAMPLE_IMAGE_URL w0) =
     Inr [(''camera'', ''EOS 40D''), (''lens'', ''Unknown Lens''), (''aperture'', ''f/?''),
          (''shutter'', ''?s''), (''iso'', ''ISO ?''), (''datetime'', ''Unknown Date'')]"
    by (simp add: extract_exif_data_decoded [OF sample_env_decoded] metadata_of_tags_def
        dict_set_def camera_field_def lens_field_def aperture_field_def shutter_field_def
        iso_field_def datetime_field_def)
  have 3: "fst (extract_exif_data (sample_env [''Image Make'' \<mapsto> IfdTag ''Canon'']) SAMPLE_IMAGE_URL w0) =
     Inr [(''camera'', ''Unknown Camera''), (''lens'', ''Unknown Lens''), (''aperture'', ''f/?''),
          (''shutter'', ''?s''), (''iso'', ''ISO ?''), (''datetime'', ''Unknown Date'')]"
    by (simp add: extract_exif_data_decoded [OF sample_env_decoded] metadata_of_tags_def
        dict_set_def camera_field_def lens_field_def aperture_field_def shutter_field_def
        iso_field_def datetime_field_def)
  from camera_rule [OF sample_env_decoded 1] camera_rule [OF sample_env_decoded 2]
    camera_rule [OF sample_env_decoded 3] 1 2 3
  show ?thesis by blast
qed

text \<open>
  C10.  A present f-number tag whose text is a numerator, a slash and a
  denominator that \<^verbatim>\<open>float\<close> reads as zero makes \<^const>\<open>extract_exif_data\<close>
  raise \<open>ZeroDivisionError\<close>: the division is not guarded, and the error is
  reached through the public function (for instance with the text "8/0").
\<close>

theorem aperture_zero_denominator_raises:
  assumes "http_get env url (requests_made w) = Inr r"
    and "raise_for_status r = Inr ()"
    and "process_file env (content r) = Inr tags"
    and "tags ''EXIF FNumber'' = Some (IfdTag (num @ ''/'' @ denom))"
    and "CHR ''/'' \<notin> set num" and "CHR ''/'' \<notin> set denom"
    and "py_float num = Inr n" and "py_float denom = Inr (Finite neg 0 e)"
  shows "fst (extract_exif_data env url w) = Inl ZeroDivisionError"
proof -
  from assms(4-8) have "aperture_field tags = Inl ZeroDivisionError"
    by (rule aperture_field_zero_division)
  then have "metadata_of_tags tags = Inl ZeroDivisionError"
    by (rule metadata_of_tags_aperture_error)
  with assms(1-3) show ?thesis
    by (simp add: extract_exif_data_decoded)
qed

theorem aperture_zero_denominator_raises_witness:
  "fst (extract_exif_data (sample_env [''EXIF FNumber'' \<mapsto> IfdTag ''8/0'']) SAMPLE_IMAGE_URL w0)
     = Inl ZeroDivisionError"
proof -
  have t: "[''EXIF FNumber'' \<mapsto> IfdTag ''8/0''] ''EXIF FNumber'' = Some (IfdTag (''8'' @ ''/'' @ ''0''))"
    by simp
  show ?thesis
    using aperture_zero_denominator_raises
      [where tags = "[''EXIF FNumber'' \<mapsto> IfdTag ''8/0'']" and num = "''8''" and denom = "''0''",
       OF sample_env_decoded t _ _ py_float_8 py_float_0]
    by simp
qed

lemma sample_dt: "aperture_field [''EXIF DateTimeOriginal'' \<mapsto> IfdTag s] = Inr ''f/?''"
  by (simp add: aperture_field_def)

lemma py_float_error: "py_float s = Inl e \<Longrightarrow> e = ValueError"
  by (auto simp: py_float_def Let_def split: option.splits)

lemma float_truediv_error: "float_truediv a b = Inl e \<Longrightarrow> e = ZeroDivisionError"
  by (cases b) (auto split: if_splits pyfloat.splits)

lemma aperture_field_error:
  "aperture_field tags = Inl e \<Longrightarrow> e = ValueError \<or> e = ZeroDivisionError"
  by (auto simp: aperture_field_def Let_def unpack2_Inl
      dest: py_float_error float_truediv_error split: if_splits sum.splits)

text \<open>
  C2.  Whenever extraction returns a metadata dictionary: an absent
  original-capture timestamp gives the datetime field "Unknown Date"; a
  timestamp made of a date part, one space and a time part gives the date
  part with its colons replaced by hyphens, the space and the time part, so
  "YYYY:MM:DD HH:MM:SS" gives "YYYY-MM-DD HH:MM:SS".  A present timestamp
  that does not contain exactly one space makes extraction raise
  \<open>ValueError\<close> (the FormatError of the specification), unless the aperture
  step, which runs before, has already raised \<open>ZeroDivisionError\<close>.  When
  the aperture step raises nothing and the timestamp is absent or has exactly
  one space, extraction does return a dictionary.
\<close>

theorem datetime_rule:
  assumes "http_get env url (requests_made w) = Inr r"
    and "raise_for_status r = Inr ()"
    and "process_file env (content r) = Inr tags"
  shows "(\<forall>md. fst (extract_exif_data env url w) = Inr md \<longrightarrow>
           (tags ''EXIF DateTimeOriginal'' = None \<longrightarrow> map_of md ''datetime'' = Some ''Unknown Date'')
         \<and> (\<forall>d t. tags ''EXIF DateTimeOriginal'' = Some (IfdTag (d @ '' '' @ t))
                 \<and> CHR '' '' \<notin> set d \<and> CHR '' '' \<notin> set t \<longrightarrow>
               map_of md ''datetime'' = Some (py_replace (CHR '':'') (CHR ''-'') d @ '' '' @ t))
         \<and> (\<forall>y1 y2 y3 y4 m1 m2 d1 d2 t.
               tags ''EXIF DateTimeOriginal'' =
                 Some (IfdTag ([y1, y2, y3, y4, CHR '':'', m1, m2, CHR '':'', d1, d2] @ '' '' @ t))
                 \<and> list_all is_digit [y1, y2, y3, y4, m1, m2, d1, d2] \<and> CHR '' '' \<notin> set t \<longrightarrow>
               map_of md ''datetime'' =
                 Some ([y1, y2, y3, y4, CHR ''-'', m1, m2, CHR ''-'', d1, d2] @ '' '' @ t)))
    \<and> (\<forall>s. tags ''EXIF DateTimeOriginal'' = Some (IfdTag s) \<and> count_list s (CHR '' '') \<noteq> 1 \<longrightarrow>
           fst (extract_exif_data env url w) = Inl ValueError
           \<or> (aperture_field tags = Inl ZeroDivisionError
               \<and> fst (extract_exif_data env url w) = Inl ZeroDivisionError))
    \<and> (\<forall>a. aperture_field tags = Inr a
           \<and> (tags ''EXIF DateTimeOriginal'' = None
               \<or> (\<exists>d t. tags ''EXIF DateTimeOriginal'' = Some (IfdTag (d @ '' '' @ t))
                     \<and> CHR '' '' \<notin> set d \<and> CHR '' '' \<notin> set t)) \<longrightarrow>
           (\<exists>md. fst (extract_exif_data env url w) = Inr md))"
proof -
  have e: "fst (extract_exif_data env url w) = metadata_of_tags tags"
    using assms by (rule extract_exif_data_decoded)
  have field: "map_of md ''datetime'' = Some d"
    if "metadata_of_tags tags = Inr md" and "datetime_field tags = Inr d" for md d
    using metadata_of_tags_Inr [OF that(1)] that(2) by auto
  have digit: "c \<noteq> CHR '':'' \<and> c \<noteq> CHR '' ''" if "is_digit c" for c
    using that by (auto simp: is_digit_def)
  have 1: "(tags ''EXIF DateTimeOriginal'' = None \<longrightarrow> map_of md ''datetime'' = Some ''Unknown Date'')
         \<and> (\<forall>d t. tags ''EXIF DateTimeOriginal'' = Some (IfdTag (d @ '' '' @ t))
                 \<and> CHR '' '' \<notin> set d \<and> CHR '' '' \<notin> set t \<longrightarrow>
               map_of md ''datetime'' = Some (py_replace (CHR '':'') (CHR ''-'') d @ '' '' @ t))
         \<and> (\<forall>y1 y2 y3 y4 m1 m2 d1 d2 t.
               tags ''EXIF DateTimeOriginal'' =
                 Some (IfdTag ([y1, y2, y3, y4, CHR '':'', m1, m2, CHR '':'', d1, d2] @ '' '' @ t))
                 \<and> list_all is_digit [y1, y2, y3, y4, m1, m2, d1, d2] \<and> CHR '' '' \<notin> set t \<longrightarrow>
               map_of md ''datetime'' =
                 Some ([y1, y2, y3, y4, CHR ''-'', m1, m2, CHR ''-'', d1, d2] @ '' '' @ t))"
    if m: "metadata_of_tags tags = Inr md" for md
  proof (intro conjI allI impI)
    assume "tags ''EXIF DateTimeOriginal'' = None"
    then show "map_of md ''datetime'' = Some ''Unknown Date''"
      by (intro field m datetime_field_absent)
  next
    fix d t
    assume "tags ''EXIF DateTimeOriginal'' = Some (IfdTag (d @ '' '' @ t))
             \<and> CHR '' '' \<notin> set d \<and> CHR '' '' \<notin> set t"
    then show "map_of md ''datetime'' = Some (py_replace (CHR '':'') (CHR ''-'') d @ '' '' @ t)"
      by (intro field m datetime_field_one_space) simp_all
  next
    fix y1 y2 y3 y4 m1 m2 d1 d2 t
    let ?d = "[y1, y2, y3, y4, CHR '':'', m1, m2, CHR '':'', d1, d2]"
    assume h: "tags ''EXIF DateTimeOriginal'' = Some (IfdTag (?d @ '' '' @ t))
             \<and> list_all is_digit [y1, y2, y3, y4, m1, m2, d1, d2] \<and> CHR '' '' \<notin> set t"
    then have nd: "CHR '' '' \<notin> set ?d"
      using digit by auto
    have r: "py_replace (CHR '':'') (CHR ''-'') ?d = [y1, y2, y3, y4, CHR ''-'', m1, m2, CHR ''-'', d1, d2]"
      using h digit by (simp add: py_replace_def)
    from h nd have "datetime_field tags = Inr (py_replace (CHR '':'') (CHR ''-'') ?d @ '' '' @ t)"
      by (intro datetime_field_one_space) simp_all
    from field [OF m this]
    show "map_of md ''datetime'' = Some ([y1, y2, y3, y4, CHR ''-'', m1, m2, CHR ''-'', d1, d2] @ '' '' @ t)"
      by (simp only: r)
  qed
  have 2: "fst (extract_exif_data env url w) = Inl ValueError
           \<or> (aperture_field tags = Inl ZeroDivisionError
               \<and> fst (extract_exif_data env url w) = Inl ZeroDivisionError)"
    if h: "tags ''EXIF DateTimeOriginal'' = Some (IfdTag s) \<and> count_list s (CHR '' '') \<noteq> 1" for s
  proof -
    from h have "tags ''EXIF DateTimeOriginal'' = Some (IfdTag s)" and "count_list s (CHR '' '') \<noteq> 1"
      by blast+
    then have d: "datetime_field tags = Inl ValueError"
      by (rule datetime_field_malformed)
    show ?thesis
    proof (cases "aperture_field tags")
      case (Inl x)
      with aperture_field_error [of tags x] metadata_of_tags_aperture_error [of tags x]
      show ?thesis by (auto simp: e)
    next
      case (Inr a)
      with d show ?thesis
        by (simp add: e metadata_of_tags_datetime_error)
    qed
  qed
  have 3: "\<exists>md. fst (extract_exif_data env url w) = Inr md"
    if h: "aperture_field tags = Inr a
           \<and> (tags ''EXIF DateTimeOriginal'' = None
               \<or> (\<exists>d t. tags ''EXIF DateTimeOriginal'' = Some (IfdTag (d @ '' '' @ t))
                     \<and> CHR '' '' \<notin> set d \<and> CHR '' '' \<notin> set t))" for a
  proof -
    have "\<exists>d. datetime_field tags = Inr d"
    proof (cases "tags ''EXIF DateTimeOriginal'' = None")
      case True
      then show ?thesis by (simp add: datetime_field_absent)
    next
      case False
      with h obtain d t where "tags ''EXIF DateTimeOriginal'' = Some (IfdTag (d @ '' '' @ t))"
          and "CHR '' '' \<notin> set d" and "CHR '' '' \<notin> set t"
        by auto
      then have "datetime_field tags = Inr (py_replace (CHR '':'') (CHR ''-'') d @ '' '' @ t)"
        by (rule datetime_field_one_space)
      then show ?thesis by blast
    qed
    with h show ?thesis
      by (auto simp: e metadata_of_tags_ok)
  qed
  from 1 2 3 show ?thesis
    unfolding e by blast
qed

theorem datetime_rule_witness:
  "fst (extract_exif_data (sample_env [''EXIF DateTimeOriginal'' \<mapsto> IfdTag ''2008:05:30 15:56:01''])
      SAMPLE_IMAGE_URL w0) =
     Inr [(''camera'', ''Unknown Camera''), (''lens'', ''Unknown Lens''), (''aperture'', ''f/?''),
          (''shutter'', ''?s''), (''iso'', ''ISO ?''), (''datetime'', ''2008-05-30 15:56:01'')]
   \<and> fst (extract_exif_data (sample_env [''EXIF DateTimeOriginal'' \<mapsto> IfdTag ''2008:05:30'']) SAMPLE_IMAGE_URL w0)
       = Inl ValueError
   \<and> fst (extract_exif_data (sample_env [''EXIF DateTimeOriginal'' \<mapsto> IfdTag ''2008:05:30  15:56:01'']) SAMPLE_IMAGE_URL w0)
       = Inl ValueError"
proof -
  have 1: "fst (extract_exif_data (sample_env [''EXIF DateTimeOriginal'' \<mapsto> IfdTag ''2008:05:30 15:56:01''])
      SAMPLE_IMAGE_URL w0) =
     Inr [(''camera'', ''Unknown Camera''), (''lens'', ''Unknown Lens''), (''aperture'', ''f/?''),
          (''shutter'', ''?s''), (''iso'', ''ISO ?''), (''datetime'', ''2008-05-30 15:56:01'')]"
    by (simp add: extract_exif_data_decoded [OF sample_env_decoded] metadata_of_tags_def
        dict_set_def camera_field_def lens_field_def aperture_field_def shutter_field_def
        iso_field_def datetime_field_def py_replace_def)
  have 2: "fst (extract_exif_data (sample_env [''EXIF DateTimeOriginal'' \<mapsto> IfdTag ''2008:05:30'']) SAMPLE_IMAGE_URL w0)
       = Inl ValueError"
    using datetime_rule [where env = "sample_env [''EXIF DateTimeOriginal'' \<mapsto> IfdTag ''2008:05:30'']"
          and url = SAMPLE_IMAGE_URL and w = w0,
        OF sample_env_decoded, THEN conjunct2, THEN conjunct1, rule_format, of "''2008:05:30''"]
    by (simp add: sample_dt)
  have 3: "fst (extract_exif_data (sample_env [''EXIF DateTimeOriginal'' \<mapsto> IfdTag ''2008:05:30  15:56:01'']) SAMPLE_IMAGE_URL w0)
       = Inl ValueError"
    using datetime_rule [where env = "sample_env [''EXIF DateTimeOriginal'' \<mapsto> IfdTag ''2008:05:30  15:56:01'']"
          and url = SAMPLE_IMAGE_URL and w = w0,
        OF sample_env_decoded, THEN conjunct2, THEN conjunct1, rule_format, of "''2008:05:30  15:56:01''"]
    by (simp add: sample_dt)
  from 1 2 3 show ?thesis by blast
qed

text \<open>
  Without that exception the last part of C2 fails: with the f-number "8/0"
  and the timestamp "20080530", which has no space, extraction raises
  \<open>ZeroDivisionError\<close> at the division and never reaches the timestamp.
\<close>

theorem datetime_error_preempted:
  "[''EXIF FNumber'' \<mapsto> IfdTag ''8/0'', ''EXIF DateTimeOriginal'' \<mapsto> IfdTag ''20080530'']
      ''EXIF DateTimeOriginal'' = Some (IfdTag ''20080530'')
   \<and> count_list ''20080530'' (CHR '' '') \<noteq> 1
   \<and> fst (extract_exif_data
        (sample_env [''EXIF FNumber'' \<mapsto> IfdTag ''8/0'', ''EXIF DateTimeOriginal'' \<mapsto> IfdTag ''20080530''])
        SAMPLE_IMAGE_URL w0) = Inl ZeroDivisionError
   \<and> fst (extract_exif_data
        (sample_env [''EXIF FNumber'' \<mapsto> IfdTag ''8/0'', ''EXIF DateTimeOriginal'' \<mapsto> IfdTag ''20080530''])
        SAMPLE_IMAGE_URL w0) \<noteq> Inl ValueError"
proof -
  have "aperture_field
      [''EXIF FNumber'' \<mapsto> IfdTag ''8/0'', ''EXIF DateTimeOriginal'' \<mapsto> IfdTag ''20080530'']
      = Inl ZeroDivisionError"
    using aperture_field_zero_division
      [where tags = "[''EXIF FNumber'' \<mapsto> IfdTag ''8/0'', ''EXIF DateTimeOriginal'' \<mapsto> IfdTag ''20080530'']"
         and num = "''8''" and denom = "''0''", OF _ _ _ py_float_8 py_float_0]
    by simp
  then show ?thesis
    by (simp add: extract_exif_data_decoded [OF sample_env_decoded] metadata_of_tags_aperture_error)
qed

section \<open>The renderer\<close>

lemma py_range_shadow: "py_range (- 2) 3 = [- 2, - 1, 0, 1, 2]"
  by (simp add: py_range_def upto_rec1)

lemma fold_draw_text:
  "drawn (fold (\<lambda>b d. if P b then draw_text d (g b) s f c else d) xs d0) =
     drawn d0 @ map (\<lambda>b. \<lparr>call_xy = g b, call_text = s, call_font = f, call_fill = c\<rparr>) (filter P xs)"
  by (induction xs arbitrary: d0) (simp_all add: draw_text_def)

lemma fold_fold_draw_text:
  "drawn (fold (\<lambda>a d. fold (\<lambda>b d. if P a b then draw_text d (g a b) s f c else d) ys d) xs d0) =
     drawn d0 @ concat (map (\<lambda>a. map (\<lambda>b. \<lparr>call_xy = g a b, call_text = s, call_font = f, call_fill = c\<rparr>)
                                    (filter (P a) ys)) xs)"
  by (induction xs arbitrary: d0) (simp_all add: fold_draw_text)

lemma create_text_with_shadow_drawn:
  "drawn (create_text_with_shadow draw (x, y) s f (255, 255, 255) (0, 0, 0) 2) =
     drawn draw
     @ map (\<lambda>(dx, dy). \<lparr>call_xy = (x + dx, y + dy), call_text = s, call_font = f, call_fill = (0, 0, 0)\<rparr>)
         [(- 2, - 2), (- 2, - 1), (- 2, 0), (- 2, 1), (- 2, 2),
          (- 1, - 2), (- 1, - 1), (- 1, 0), (- 1, 1), (- 1, 2),
          (0, - 2), (0, - 1), (0, 1), (0, 2),
          (1, - 2), (1, - 1), (1, 0), (1, 1), (1, 2),
          (2, - 2), (2, - 1), (2, 0), (2, 1), (2, 2)]
     @ [\<lparr>call_xy = (x, y), call_text = s, call_font = f, call_fill = (255, 255, 255)\<rparr>]"
proof -
  have "drawn (create_text_with_shadow draw (x, y) s f (255, 255, 255) (0, 0, 0) 2) =
     drawn (fold (\<lambda>a d. fold (\<lambda>b d. if a \<noteq> 0 \<or> b \<noteq> 0 then draw_text d (x + a, y + b) s f (0, 0, 0) else d)
                  [- 2, - 1, 0, 1, 2] d) [- 2, - 1, 0, 1, 2] draw)
     @ [\<lparr>call_xy = (x, y), call_text = s, call_font = f, call_fill = (255, 255, 255)\<rparr>]"
    by (simp add: create_text_with_shadow_def py_range_shadow draw_text_def Let_def del: fold_simps)
  also have "drawn (fold (\<lambda>a d. fold (\<lambda>b d. if a \<noteq> 0 \<or> b \<noteq> 0 then draw_text d (x + a, y + b) s f (0, 0, 0) else d)
                  [- 2, - 1, 0, 1, 2] d) [- 2, - 1, 0, 1, 2] draw) =
      drawn draw @ concat (map (\<lambda>a. map (\<lambda>b. \<lparr>call_xy = (x + a, y + b), call_text = s, call_font = f, call_fill = (0, 0, 0)\<rparr>)
                                    (filter (\<lambda>b. a \<noteq> 0 \<or> b \<noteq> 0) [- 2, - 1, 0, 1, 2])) [- 2, - 1, 0, 1, 2])"
    by (rule fold_fold_draw_text)
  finally show ?thesis by simp
qed

lemma fold_draw_text_frame:
  "width (fold (\<lambda>b d. if P b then draw_text d (g b) s f c else d) xs d0) = width d0"
  "height (fold (\<lambda>b d. if P b then draw_text d (g b) s f c else d) xs d0) = height d0"
  "pixels (fold (\<lambda>b d. if P b then draw_text d (g b) s f c else d) xs d0) = pixels d0"
  "mode (fold (\<lambda>b d. if P b then draw_text d (g b) s f c else d) xs d0) = mode d0"
  by (induction xs arbitrary: d0) (simp_all add: draw_text_def)

lemma fold_fold_draw_text_frame:
  "width (fold (\<lambda>a d. fold (\<lambda>b d. if P a b then draw_text d (g a b) s f c else d) ys d) xs d0) = width d0"
  "height (fold (\<lambda>a d. fold (\<lambda>b d. if P a b then draw_text d (g a b) s f c else d) ys d) xs d0) = height d0"
  "pixels (fold (\<lambda>a d. fold (\<lambda>b d. if P a b then draw_text d (g a b) s f c else d) ys d) xs d0) = pixels d0"
  "mode (fold (\<lambda>a d. fold (\<lambda>b d. if P a b then draw_text d (g a b) s f c else d) ys d) xs d0) = mode d0"
  by (induction xs arbitrary: d0) (simp_all add: fold_draw_text_frame)

lemma create_text_with_shadow_frame:
  "width (create_text_with_shadow draw p s f tc sc so) = width draw"
  "height (create_text_with_shadow draw p s f tc sc so) = height draw"
  "pixels (create_text_with_shadow draw p s f tc sc so) = pixels draw"
  "mode (create_text_with_shadow draw p s f tc sc so) = mode draw"
  by (simp_all add: create_text_with_shadow_def Let_def fold_fold_draw_text_frame draw_text_def
      split: prod.splits)

lemma overlay_metadata_fst:
  "fst (overlay_metadata env img metadata w) = overlay_lines env img metadata"
  by (simp add: overlay_metadata_def bind_def print_def lift_def)

lemma dict_get_Some: "map_of d k = Some v \<Longrightarrow> dict_get d k = Inr v"
  by (simp add: dict_get_def)

text \<open>
  The renderer on a dictionary with all six fields: when the copy and the
  draw calls raise nothing, the result hangs on the measurement alone; when
  the measurement raises, no image is returned whatever the draw calls do.
\<close>

lemma overlay_lines_copy_raises:
  "copy_raises env img = Some c \<Longrightarrow> overlay_lines env img metadata = Inl c"
  by (simp add: overlay_lines_def)

lemma overlay_lines_measured:
  assumes "map_of metadata ''camera'' = Some camera"
    and "map_of metadata ''lens'' = Some lens"
    and "map_of metadata ''aperture'' = Some aperture"
    and "map_of metadata ''shutter'' = Some shutter"
    and "map_of metadata ''iso'' = Some isov"
    and "map_of metadata ''datetime'' = Some datetime"
    and "textbbox env (resolve_font env) datetime = Inr (b0, b1, b2, b3)"
    and "copy_raises env img = None"
    and "\<forall>s \<in> set [camera, lens, aperture @ '' '' @ shutter @ '' '' @ isov, datetime].
           \<forall>c \<in> set [(0, 0, 0), (255, 255, 255)].
             draw_text_raises env (mode img) (resolve_font env) s c = None"
  shows "overlay_lines env img metadata =
     Inr (create_text_with_shadow
           (create_text_with_shadow
             (create_text_with_shadow
               (create_text_with_shadow img
                  (20, height img - 20 - 3 * 30) camera (resolve_font env) (255, 255, 255) (0, 0, 0) 2)
                (20, height img - 20 - 3 * 30 + 30) lens (resolve_font env) (255, 255, 255) (0, 0, 0) 2)
              (20, height img - 20 - 3 * 30 + 30 + 30) (aperture @ '' '' @ shutter @ '' '' @ isov)
                (resolve_font env) (255, 255, 255) (0, 0, 0) 2)
            (width img - 20 - (b2 - b0), height img - 20 - 30) datetime
              (resolve_font env) (255, 255, 255) (0, 0, 0) 2)"
  using assms
  by (simp add: overlay_lines_def bind_sum_def dict_get_Some margin_def line_spacing_def Let_def
      draw_line_def create_text_with_shadow_frame)

lemma overlay_lines_unmeasured:
  assumes "map_of metadata ''camera'' = Some camera"
    and "map_of metadata ''lens'' = Some lens"
    and "map_of metadata ''aperture'' = Some aperture"
    and "map_of metadata ''shutter'' = Some shutter"
    and "map_of metadata ''iso'' = Some isov"
    and "map_of metadata ''datetime'' = Some datetime"
    and "textbbox env (resolve_font env) datetime = Inl e"
    and "copy_raises env img = None"
    and "\<forall>s \<in> set [camera, lens, aperture @ '' '' @ shutter @ '' '' @ isov].
           \<forall>c \<in> set [(0, 0, 0), (255, 255, 255)].
             draw_text_raises env (mode img) (resolve_font env) s c = None"
  shows "overlay_lines env img metadata = Inl e"
  using assms
  by (simp add: overlay_lines_def bind_sum_def dict_get_Some margin_def line_spacing_def Let_def
      draw_line_def create_text_with_shadow_frame)

lemma overlay_lines_no_image:
  assumes "map_of metadata ''camera'' = Some camera"
    and "map_of metadata ''lens'' = Some lens"
    and "map_of metadata ''aperture'' = Some aperture"
    and "map_of metadata ''shutter'' = Some shutter"
    and "map_of metadata ''iso'' = Some isov"
    and "map_of metadata ''datetime'' = Some datetime"
    and "textbbox env (resolve_font env) datetime = Inl e"
  shows "\<exists>e'. overlay_lines env img metadata = Inl e'"
  using assms
  by (simp add: overlay_lines_def bind_sum_def dict_get_Some margin_def line_spacing_def Let_def
      draw_line_def create_text_with_shadow_frame split: option.splits)

lemma sample_env_draws:
  "copy_raises (sample_env ts) img = None"
  "mode img \<noteq> ''L'' \<Longrightarrow> draw_text_raises (sample_env ts) (mode img) f s c = None"
  by (simp_all add: sample_env_def)

text \<open>
  A greyscale image, which Pillow decodes from a greyscale JPEG: the first
  draw call is given a fill of three bands, raises, and the renderer returns
  no image.
\<close>

lemma overlay_metadata_greyscale:
  "fst (overlay_metadata (sample_env Map.empty) greyscale_image sample_metadata w0)
     = Inl (LibraryError ''TypeError'')"
  by (simp add: overlay_metadata_fst overlay_lines_def bind_sum_def dict_get_def sample_metadata_def
      Let_def draw_line_def greyscale_image_def sample_image_def sample_env_def)

lemma sample_metadata_fields:
  "map_of sample_metadata ''camera'' = Some ''Test Cam''"
  "map_of sample_metadata ''lens'' = Some ''Test Lens''"
  "map_of sample_metadata ''aperture'' = Some ''f/2.0''"
  "map_of sample_metadata ''shutter'' = Some ''1/100s''"
  "map_of sample_metadata ''iso'' = Some ''ISO 200''"
  "map_of sample_metadata ''datetime'' = Some ''2020-01-01 00:00:00''"
  by (simp_all add: sample_metadata_def)

lemma white_calls_of_line:
  "filter (\<lambda>c. call_fill c = (255, 255, 255))
     (drop (length (drawn draw))
        (drawn (create_text_with_shadow draw (x, y) s f (255, 255, 255) (0, 0, 0) 2))) =
   [\<lparr>call_xy = (x, y), call_text = s, call_font = f, call_fill = (255, 255, 255)\<rparr>]"
  by (simp add: create_text_with_shadow_drawn)

lemma length_drawn_line:
  "length (drawn (create_text_with_shadow draw (x, y) s f (255, 255, 255) (0, 0, 0) 2)) =
     length (drawn draw) + 25"
  by (simp add: create_text_with_shadow_drawn)

lemma white_calls_after:
  "n \<le> length (drawn draw) \<Longrightarrow>
   filter (\<lambda>c. call_fill c = (255, 255, 255))
     (drop n (drawn (create_text_with_shadow draw (x, y) s f (255, 255, 255) (0, 0, 0) 2))) =
   filter (\<lambda>c. call_fill c = (255, 255, 255)) (drop n (drawn draw))
   @ [\<lparr>call_xy = (x, y), call_text = s, call_font = f, call_fill = (255, 255, 255)\<rparr>]"
  by (simp add: create_text_with_shadow_drawn)

text \<open>
  C5.  A line drawn by the renderer (white text, black shadow, shadow offset
  2) adds exactly 25 draw calls of the same text and font to the image: first
  24 in black, one at each offset (dx, dy) with dx and dy in -2 .. 2 other
  than (0, 0), each offset once, then one in white at the position itself.
\<close>

theorem create_text_with_shadow_calls:
  "(let offsets =
         [(- 2, - 2), (- 2, - 1), (- 2, 0), (- 2, 1), (- 2, 2),
          (- 1, - 2), (- 1, - 1), (- 1, 0), (- 1, 1), (- 1, 2),
          (0, - 2), (0, - 1), (0, 1), (0, 2),
          (1, - 2), (1, - 1), (1, 0), (1, 1), (1, 2),
          (2, - 2), (2, - 1), (2, 0), (2, 1), (2, 2)]
    in drawn (create_text_with_shadow draw (x, y) s f (255, 255, 255) (0, 0, 0) 2) =
         drawn draw
         @ map (\<lambda>(dx, dy). \<lparr>call_xy = (x + dx, y + dy), call_text = s, call_font = f,
                            call_fill = (0, 0, 0)\<rparr>) offsets
         @ [\<lparr>call_xy = (x, y), call_text = s, call_font = f, call_fill = (255, 255, 255)\<rparr>]
       \<and> length offsets = 24
       \<and> distinct offsets
       \<and> set offsets = {- 2, - 1, 0, 1, 2} \<times> {- 2, - 1, 0, 1, 2} - {(0, 0)}
       \<and> {- 2, - 1, 0, 1, 2} = {- 2 .. 2 :: int})"
proof -
  have s: "set [(- 2, - 2), (- 2, - 1), (- 2, 0), (- 2, 1), (- 2, 2),
          (- 1, - 2), (- 1, - 1), (- 1, 0), (- 1, 1), (- 1, 2),
          (0, - 2), (0, - 1), (0, 1), (0, 2),
          (1, - 2), (1, - 1), (1, 0), (1, 1), (1, 2),
          (2, - 2), (2, - 1), (2, 0), (2, 1), (2, 2 :: int)]
      = {- 2, - 1, 0, 1, 2 :: int} \<times> {- 2, - 1, 0, 1, 2} - {(0, 0)}"
    by auto
  have i: "{- 2, - 1, 0, 1, 2} = {- 2 .. 2 :: int}"
    by auto
  show ?thesis
    unfolding Let_def
    by (intro conjI create_text_with_shadow_drawn s i) simp_all
qed

theorem create_text_with_shadow_calls_witness:
  "map (\<lambda>c. (call_xy c, call_fill c))
     (drawn (create_text_with_shadow sample_image (20, 370) ''Test Cam'' DefaultFont (255, 255, 255) (0, 0, 0) 2)) =
     [((18, 368), (0, 0, 0)), ((18, 369), (0, 0, 0)), ((18, 370), (0, 0, 0)), ((18, 371), (0, 0, 0)),
      ((18, 372), (0, 0, 0)),
      ((19, 368), (0, 0, 0)), ((19, 369), (0, 0, 0)), ((19, 370), (0, 0, 0)), ((19, 371), (0, 0, 0)),
      ((19, 372), (0, 0, 0)),
      ((20, 368), (0, 0, 0)), ((20, 369), (0, 0, 0)), ((20, 371), (0, 0, 0)), ((20, 372), (0, 0, 0)),
      ((21, 368), (0, 0, 0)), ((21, 369), (0, 0, 0)), ((21, 370), (0, 0, 0)), ((21, 371), (0, 0, 0)),
      ((21, 372), (0, 0, 0)),
      ((22, 368), (0, 0, 0)), ((22, 369), (0, 0, 0)), ((22, 370), (0, 0, 0)), ((22, 371), (0, 0, 0)),
      ((22, 372), (0, 0, 0)),
      ((20, 370), (255, 255, 255))]"
  using create_text_with_shadow_calls [of sample_image 20 370 "''Test Cam''" DefaultFont]
  by (simp add: Let_def sample_image_def)

text \<open>
  C6.  For an image of width w and height h whose copy and draw calls raise
  nothing, a metadata dictionary holding all six fields and a datetime line
  that the resolved font measures, the renderer returns the image with four
  lines drawn one after the other by \<^const>\<open>create_text_with_shadow\<close>: camera
  at (20, h - 20 - 3 * 30), lens 30 lower, then aperture, shutter and iso
  joined by single spaces 30 lower again, all at x = 20; and datetime at
  y = h - 20 - 30 and at the x that puts the end of its measured width at
  w - 20.  Size, mode and pixels of the image are kept.
\<close>

theorem overlay_metadata_layout:
  assumes "map_of metadata ''camera'' = Some camera"
    and "map_of metadata ''lens'' = Some lens"
    and "map_of metadata ''aperture'' = Some aperture"
    and "map_of metadata ''shutter'' = Some shutter"
    and "map_of metadata ''iso'' = Some isov"
    and "map_of metadata ''datetime'' = Some datetime"
    and "textbbox env (resolve_font env) datetime = Inr (b0, b1, b2, b3)"
    and "copy_raises env img = None"
    and "\<forall>s \<in> set [camera, lens, aperture @ '' '' @ shutter @ '' '' @ isov, datetime].
           \<forall>c \<in> set [(0, 0, 0), (255, 255, 255)].
             draw_text_raises env (mode img) (resolve_font env) s c = None"
  shows "\<exists>out. fst (overlay_metadata env img metadata w) = Inr out
    \<and> out =
        create_text_with_shadow
          (create_text_with_shadow
            (create_text_with_shadow
              (create_text_with_shadow img
                 (20, height img - 20 - 3 * 30) camera (resolve_font env) (255, 255, 255) (0, 0, 0) 2)
               (20, height img - 20 - 3 * 30 + 30) lens (resolve_font env) (255, 255, 255) (0, 0, 0) 2)
             (20, height img - 20 - 3 * 30 + 30 + 30) (aperture @ '' '' @ shutter @ '' '' @ isov)
               (resolve_font env) (255, 255, 255) (0, 0, 0) 2)
           (width img - 20 - (b2 - b0), height img - 20 - 30) datetime
             (resolve_font env) (255, 255, 255) (0, 0, 0) 2
    \<and> map (\<lambda>c. (call_xy c, call_text c))
          (filter (\<lambda>c. call_fill c = (255, 255, 255)) (drop (length (drawn img)) (drawn out))) =
        [((20, height img - 20 - 3 * 30), camera),
         ((20, height img - 20 - 3 * 30 + 30), lens),
         ((20, height img - 20 - 3 * 30 + 30 + 30), aperture @ '' '' @ shutter @ '' '' @ isov),
         ((width img - 20 - (b2 - b0), height img - 20 - 30), datetime)]
    \<and> (width img - 20 - (b2 - b0)) + (b2 - b0) = width img - 20
    \<and> length (drawn out) = length (drawn img) + 4 * 25
    \<and> width out = width img \<and> height out = height img \<and> pixels out = pixels img
    \<and> mode out = mode img"
proof -
  let ?f = "resolve_font env"
  let ?l1 = "create_text_with_shadow img
                 (20, height img - 20 - 3 * 30) camera ?f (255, 255, 255) (0, 0, 0) 2"
  let ?l2 = "create_text_with_shadow ?l1
               (20, height img - 20 - 3 * 30 + 30) lens ?f (255, 255, 255) (0, 0, 0) 2"
  let ?l3 = "create_text_with_shadow ?l2
             (20, height img - 20 - 3 * 30 + 30 + 30) (aperture @ '' '' @ shutter @ '' '' @ isov)
               ?f (255, 255, 255) (0, 0, 0) 2"
  let ?l4 = "create_text_with_shadow ?l3
           (width img - 20 - (b2 - b0), height img - 20 - 30) datetime ?f (255, 255, 255) (0, 0, 0) 2"
  have "overlay_lines env img metadata = Inr ?l4"
    using assms by (rule overlay_lines_measured)
  then have r: "fst (overlay_metadata env img metadata w) = Inr ?l4"
    by (simp only: overlay_metadata_fst)
  have n1: "length (drawn img) \<le> length (drawn ?l1)" by (simp only: length_drawn_line)
  have n2: "length (drawn img) \<le> length (drawn ?l2)" using n1 by (simp only: length_drawn_line)
  have n3: "length (drawn img) \<le> length (drawn ?l3)" using n2 by (simp only: length_drawn_line)
  have w1: "filter (\<lambda>c. call_fill c = (255, 255, 255)) (drop (length (drawn img)) (drawn ?l1)) =
      [\<lparr>call_xy = (20, height img - 20 - 3 * 30), call_text = camera, call_font = ?f,
        call_fill = (255, 255, 255)\<rparr>]"
    by (rule white_calls_of_line)
  have w2: "filter (\<lambda>c. call_fill c = (255, 255, 255)) (drop (length (drawn img)) (drawn ?l2)) =
      [\<lparr>call_xy = (20, height img - 20 - 3 * 30), call_text = camera, call_font = ?f,
         call_fill = (255, 255, 255)\<rparr>,
       \<lparr>call_xy = (20, height img - 20 - 3 * 30 + 30), call_text = lens, call_font = ?f,
         call_fill = (255, 255, 255)\<rparr>]"
    using w1 n1 by (simp add: white_calls_after)
  have w3: "filter (\<lambda>c. call_fill c = (255, 255, 255)) (drop (length (drawn img)) (drawn ?l3)) =
      [\<lparr>call_xy = (20, height img - 20 - 3 * 30), call_text = camera, call_font = ?f,
         call_fill = (255, 255, 255)\<rparr>,
       \<lparr>call_xy = (20, height img - 20 - 3 * 30 + 30), call_text = lens, call_font = ?f,
         call_fill = (255, 255, 255)\<rparr>,
       \<lparr>call_xy = (20, height img - 20 - 3 * 30 + 30 + 30),
         call_text = aperture @ '' '' @ shutter @ '' '' @ isov, call_font = ?f,
         call_fill = (255, 255, 255)\<rparr>]"
    using w2 n2 by (simp add: white_calls_after)
  have w4: "filter (\<lambda>c. call_fill c = (255, 255, 255)) (drop (length (drawn img)) (drawn ?l4)) =
      [\<lparr>call_xy = (20, height img - 20 - 3 * 30), call_text = camera, call_font = ?f,
         call_fill = (255, 255, 255)\<rparr>,
       \<lparr>call_xy = (20, height img - 20 - 3 * 30 + 30), call_text = lens, call_font = ?f,
         call_fill = (255, 255, 255)\<rparr>,
       \<lparr>call_xy = (20, height img - 20 - 3 * 30 + 30 + 30),
         call_text = aperture @ '' '' @ shutter @ '' '' @ isov, call_font = ?f,
         call_fill = (255, 255, 255)\<rparr>,
       \<lparr>call_xy = (width img - 20 - (b2 - b0), height img - 20 - 30), call_text = datetime,
         call_font = ?f, call_fill = (255, 255, 255)\<rparr>]"
    using w3 n3 by (simp add: white_calls_after)
  have len: "length (drawn ?l4) = length (drawn img) + 4 * 25"
    by (simp add: length_drawn_line)
  have frame: "width ?l4 = width img \<and> height ?l4 = height img \<and> pixels ?l4 = pixels img
      \<and> mode ?l4 = mode img"
    by (simp only: create_text_with_shadow_frame)
  from r w4 len frame show ?thesis
    by simp
qed

theorem overlay_metadata_layout_witness:
  "map_of sample_metadata ''datetime'' = Some ''2020-01-01 00:00:00''
   \<and> textbbox (sample_env Map.empty) (resolve_font (sample_env Map.empty)) ''2020-01-01 00:00:00''
       = Inr (0, 0, 190, 12)
   \<and> copy_raises (sample_env Map.empty) sample_image = None
   \<and> map (\<lambda>s. map (draw_text_raises (sample_env Map.empty) (mode sample_image)
                     (resolve_font (sample_env Map.empty)) s) [(0, 0, 0), (255, 255, 255)])
        [''Test Cam'', ''Test Lens'', ''f/2.0 1/100s ISO 200'', ''2020-01-01 00:00:00'']
       = [[None, None], [None, None], [None, None], [None, None]]
   \<and> (\<exists>out. fst (overlay_metadata (sample_env Map.empty) sample_image sample_metadata w0) = Inr out
     \<and> map (\<lambda>c. (call_xy c, call_text c))
          (filter (\<lambda>c. call_fill c = (255, 255, 255)) (drawn out)) =
        [((20, 370), ''Test Cam''), ((20, 400), ''Test Lens''),
         ((20, 430), ''f/2.0 1/100s ISO 200''), ((430, 430), ''2020-01-01 00:00:00'')]
     \<and> length (drawn out) = 100)"
proof -
  have b: "textbbox (sample_env Map.empty) (resolve_font (sample_env Map.empty)) ''2020-01-01 00:00:00''
       = Inr (0, 0, 190, 12)"
    by (simp add: sample_env_def)
  have c: "copy_raises (sample_env Map.empty) sample_image = None"
    by (simp add: sample_env_def)
  have d: "\<forall>s \<in> set [''Test Cam'', ''Test Lens'', ''f/2.0'' @ '' '' @ ''1/100s'' @ '' '' @ ''ISO 200'',
                  ''2020-01-01 00:00:00''].
        \<forall>c \<in> set [(0, 0, 0), (255, 255, 255)].
          draw_text_raises (sample_env Map.empty) (mode sample_image)
            (resolve_font (sample_env Map.empty)) s c = None"
    by (simp add: sample_env_def sample_image_def)
  from overlay_metadata_layout [OF sample_metadata_fields b c d, of w0]
  show ?thesis
    using b c d sample_metadata_fields(6) by (simp add: sample_image_def)
qed

text \<open>
  C7.  When the resolved font cannot measure the datetime line, the renderer
  does not fall back to the left margin: an exception leaves
  \<^const>\<open>overlay_metadata\<close> and no image is returned.  The exception is the
  one of the measurement when the copy of the image and the draw calls of
  the three left lines, which come first, raise nothing; it is the one of
  the copy when the copy raises.
\<close>

theorem overlay_metadata_measurement_error:
  assumes "map_of metadata ''camera'' = Some camera"
    and "map_of metadata ''lens'' = Some lens"
    and "map_of metadata ''aperture'' = Some aperture"
    and "map_of metadata ''shutter'' = Some shutter"
    and "map_of metadata ''iso'' = Some isov"
    and "map_of metadata ''datetime'' = Some datetime"
    and "textbbox env (resolve_font env) datetime = Inl e"
  shows "(\<exists>e'. fst (overlay_metadata env img metadata w) = Inl e')
    \<and> (copy_raises env img = None
        \<and> (\<forall>s \<in> set [camera, lens, aperture @ '' '' @ shutter @ '' '' @ isov].
             \<forall>c \<in> set [(0, 0, 0), (255, 255, 255)].
               draw_text_raises env (mode img) (resolve_font env) s c = None)
        \<longrightarrow> fst (overlay_metadata env img metadata w) = Inl e)
    \<and> (\<forall>c. copy_raises env img = Some c \<longrightarrow> fst (overlay_metadata env img metadata w) = Inl c)"
proof (intro conjI impI allI)
  show "\<exists>e'. fst (overlay_metadata env img metadata w) = Inl e'"
    using overlay_lines_no_image [OF assms] by (simp only: overlay_metadata_fst)
next
  assume a: "copy_raises env img = None
        \<and> (\<forall>s \<in> set [camera, lens, aperture @ '' '' @ shutter @ '' '' @ isov].
             \<forall>c \<in> set [(0, 0, 0), (255, 255, 255)].
               draw_text_raises env (mode img) (resolve_font env) s c = None)"
  have "overlay_lines env img metadata = Inl e"
    using assms a [THEN conjunct1] a [THEN conjunct2] by (rule overlay_lines_unmeasured)
  then show "fst (overlay_metadata env img metadata w) = Inl e"
    by (simp only: overlay_metadata_fst)
next
  fix c
  assume "copy_raises env img = Some c"
  then show "fst (overlay_metadata env img metadata w) = Inl c"
    by (simp only: overlay_metadata_fst overlay_lines_copy_raises)
qed

theorem overlay_metadata_measurement_error_witness:
  "textbbox ((sample_env Map.empty)\<lparr>textbbox := (\<lambda>f s. Inl (LibraryError ''OSError''))\<rparr>)
      (resolve_font ((sample_env Map.empty)\<lparr>textbbox := (\<lambda>f s. Inl (LibraryError ''OSError''))\<rparr>))
      ''2020-01-01 00:00:00'' = Inl (LibraryError ''OSError'')
   \<and> copy_raises ((sample_env Map.empty)\<lparr>textbbox := (\<lambda>f s. Inl (LibraryError ''OSError''))\<rparr>)
        sample_image = None
   \<and> fst (overlay_metadata ((sample_env Map.empty)\<lparr>textbbox := (\<lambda>f s. Inl (LibraryError ''OSError''))\<rparr>)
          sample_image sample_metadata w0) = Inl (LibraryError ''OSError'')"
proof -
  let ?env = "(sample_env Map.empty)\<lparr>textbbox := (\<lambda>f s. Inl (LibraryError ''OSError''))\<rparr>"
  have b: "textbbox ?env (resolve_font ?env) ''2020-01-01 00:00:00'' = Inl (LibraryError ''OSError'')"
    by simp
  have c: "copy_raises ?env sample_image = None
        \<and> (\<forall>s \<in> set [''Test Cam'', ''Test Lens'', ''f/2.0'' @ '' '' @ ''1/100s'' @ '' '' @ ''ISO 200''].
             \<forall>c \<in> set [(0, 0, 0), (255, 255, 255)].
               draw_text_raises ?env (mode sample_image) (resolve_font ?env) s c = None)"
    by (simp add: sample_env_def sample_image_def)
  from overlay_metadata_measurement_error [OF sample_metadata_fields b, of sample_image w0,
      THEN conjunct2, THEN conjunct1, rule_format, OF c] b c
  show ?thesis by simp
qed

text \<open>
  The fallback of C7 fails on the code: with no font file on disk the default
  font is resolved, its measurement raises, and so does the renderer.
\<close>

theorem overlay_metadata_no_fallback:
  "resolve_font unmeasurable_env = DefaultFont
   \<and> textbbox unmeasurable_env DefaultFont ''2020-01-01 00:00:00'' = Inl (LibraryError ''ValueError'')
   \<and> fst (overlay_metadata unmeasurable_env sample_image sample_metadata w0)
       = Inl (LibraryError ''ValueError'')"
proof -
  have f: "resolve_font unmeasurable_env = DefaultFont"
    by (simp add: resolve_font_def font_paths_def unmeasurable_env_def sample_env_def)
  have b: "textbbox unmeasurable_env (resolve_font unmeasurable_env) ''2020-01-01 00:00:00''
      = Inl (LibraryError ''ValueError'')"
    by (simp add: f) (simp add: unmeasurable_env_def)
  have c: "copy_raises unmeasurable_env sample_image = None"
    by (simp add: unmeasurable_env_def sample_env_def)
  have d: "\<forall>s \<in> set [''Test Cam'', ''Test Lens'', ''f/2.0'' @ '' '' @ ''1/100s'' @ '' '' @ ''ISO 200''].
        \<forall>c \<in> set [(0, 0, 0), (255, 255, 255)].
          draw_text_raises unmeasurable_env (mode sample_image) (resolve_font unmeasurable_env) s c = None"
    by (simp add: unmeasurable_env_def sample_env_def sample_image_def)
  have "overlay_lines unmeasurable_env sample_image sample_metadata = Inl (LibraryError ''ValueError'')"
    using sample_metadata_fields b c d by (rule overlay_lines_unmeasured)
  with f b show ?thesis
    by (simp add: overlay_metadata_fst)
qed

section \<open>The whole run\<close>

lemma bind_assoc: "bind (bind m f) g = bind m (\<lambda>a. bind (f a) g)"
  by (auto simp: bind_def fun_eq_iff split: prod.splits sum.splits)

lemma bind_return: "bind (return a) f = f a"
  by (simp add: bind_def return_def)

lemma main_try_stages:
  "main_try env = bind (render_stages env) (\<lambda>(metadata, out). save_and_report env out)"
  by (simp add: main_try_def render_stages_def save_and_report_def bind_assoc bind_return)

lemma single_fetch_try_stages:
  "single_fetch_try env = bind (single_fetch_stages env) (\<lambda>(metadata, out). save_and_report env out)"
  by (simp add: single_fetch_try_def single_fetch_stages_def save_and_report_def bind_assoc bind_return)

lemma ascii_url: "ascii_only (Downloading SAMPLE_IMAGE_URL)"
  by (simp add: SAMPLE_IMAGE_URL_def is_ascii_def)

text \<open>
  The stages before the save leave the files alone and add nothing but lines
  of the libraries to the error stream.
\<close>

lemma keeps_files_bind:
  assumes "keeps_files m" and "\<And>a. keeps_files (f a)"
  shows "keeps_files (bind m f)"
  unfolding keeps_files_def
proof (intro allI)
  fix w
  obtain r w1 where m: "m w = (r, w1)"
    by (cases "m w")
  from assms(1) m obtain ls1 where
    f1: "files w1 = files w" and s1: "stderr w1 = stderr w @ map LogLine ls1"
    unfolding keeps_files_def by (metis snd_conv)
  show "files (snd (bind m f w)) = files w
      \<and> (\<exists>ls. stderr (snd (bind m f w)) = stderr w @ map LogLine ls)"
  proof (cases r)
    case (Inl e)
    with m f1 s1 show ?thesis
      by (auto simp: bind_def)
  next
    case (Inr a)
    from assms(2) [of a] obtain ls2 where
      f2: "files (snd (f a w1)) = files w1" and s2: "stderr (snd (f a w1)) = stderr w1 @ map LogLine ls2"
      unfolding keeps_files_def by blast
    have "\<exists>ls. stderr (snd (f a w1)) = stderr w @ map LogLine ls"
      by (rule exI [of _ "ls1 @ ls2"]) (simp add: s1 s2)
    with Inr m f1 f2 show ?thesis
      by (simp add: bind_def)
  qed
qed

lemma keeps_files_silent:
  "(\<And>w. files (snd (m w)) = files w \<and> stderr (snd (m w)) = stderr w) \<Longrightarrow> keeps_files m"
  unfolding keeps_files_def by (intro allI conjI exI [of _ "[]"]) simp_all

lemma keeps_files_basic:
  "keeps_files (return a)"
  "keeps_files (lift r)"
  "keeps_files (print env m)"
  "keeps_files (requests_get env url)"
  by (rule keeps_files_silent, simp add: return_def lift_def print_def requests_get_def)+

lemma keeps_files_logging: "keeps_files (logging ls r)"
  unfolding keeps_files_def logging_def by auto

lemma keeps_files_print_items: "keeps_files (print_items env md)"
  by (induction md) (simp_all add: keeps_files_bind keeps_files_basic)

lemma keeps_files_render_stages: "keeps_files (render_stages env)"
  unfolding render_stages_def download_image_def extract_exif_data_def overlay_metadata_def
    Image_open_def exifread_process_file_def
  by (intro keeps_files_bind keeps_files_basic keeps_files_print_items keeps_files_logging)

lemma render_stages_frame:
  "files (snd (render_stages env w)) = files w"
  "\<exists>ls. stderr (snd (render_stages env w)) = stderr w @ map LogLine ls"
  using keeps_files_render_stages [of env] by (simp_all add: keeps_files_def)

text \<open>The save and the line of success, and the run in terms of its stages.\<close>

lemma save_and_report_run:
  "save_and_report env out w1 =
     (case save_file env out ''JPEG'' 95 (files w1 OUTPUT_FILENAME) of
        (new, None) \<Rightarrow>
          if stdout_encodes env (Success OUTPUT_FILENAME)
          then (Inr 0, w1\<lparr>files := (files w1)(OUTPUT_FILENAME := new),
                          stdout := stdout w1 @ [Success OUTPUT_FILENAME]\<rparr>)
          else (Inl UnicodeEncodeError, w1\<lparr>files := (files w1)(OUTPUT_FILENAME := new)\<rparr>)
      | (new, Some e) \<Rightarrow> (Inl e, w1\<lparr>files := (files w1)(OUTPUT_FILENAME := new)\<rparr>))"
  by (simp add: save_and_report_def image_save_def bind_def print_def return_def
      split: prod.splits option.splits)

lemma main_run:
  "main env w =
     (case render_stages env w of
        (Inl e, w1) \<Rightarrow> (1, w1\<lparr>stderr := stderr w1 @ [ErrorMessage e]\<rparr>)
      | (Inr (metadata, out), w1) \<Rightarrow>
          (case save_file env out ''JPEG'' 95 (files w1 OUTPUT_FILENAME) of
             (new, None) \<Rightarrow>
               if stdout_encodes env (Success OUTPUT_FILENAME)
               then (0, w1\<lparr>files := (files w1)(OUTPUT_FILENAME := new),
                            stdout := stdout w1 @ [Success OUTPUT_FILENAME]\<rparr>)
               else (1, w1\<lparr>files := (files w1)(OUTPUT_FILENAME := new),
                            stderr := stderr w1 @ [ErrorMessage UnicodeEncodeError]\<rparr>)
           | (new, Some e) \<Rightarrow>
               (1, w1\<lparr>files := (files w1)(OUTPUT_FILENAME := new),
                       stderr := stderr w1 @ [ErrorMessage e]\<rparr>)))"
  by (simp add: main_def main_try_stages bind_def save_and_report_run print_err_def
      split: prod.splits sum.splits option.splits)

lemma single_fetch_main_run:
  "single_fetch_main env w =
     (case single_fetch_stages env w of
        (Inl e, w1) \<Rightarrow> (1, w1\<lparr>stderr := stderr w1 @ [ErrorMessage e]\<rparr>)
      | (Inr (metadata, out), w1) \<Rightarrow>
          (case save_file env out ''JPEG'' 95 (files w1 OUTPUT_FILENAME) of
             (new, None) \<Rightarrow>
               if stdout_encodes env (Success OUTPUT_FILENAME)
               then (0, w1\<lparr>files := (files w1)(OUTPUT_FILENAME := new),
                            stdout := stdout w1 @ [Success OUTPUT_FILENAME]\<rparr>)
               else (1, w1\<lparr>files := (files w1)(OUTPUT_FILENAME := new),
                            stderr := stderr w1 @ [ErrorMessage UnicodeEncodeError]\<rparr>)
           | (new, Some e) \<Rightarrow>
               (1, w1\<lparr>files := (files w1)(OUTPUT_FILENAME := new),
                       stderr := stderr w1 @ [ErrorMessage e]\<rparr>)))"
  by (simp add: single_fetch_main_def single_fetch_try_stages bind_def save_and_report_run print_err_def
      split: prod.splits sum.splits option.splits)

text \<open>
  Printing and overlaying: the outcome does not depend on the world, and the
  only effect is on standard output.
\<close>

lemma only_prints_bind:
  assumes "only_prints m" and "\<And>a. only_prints (f a)"
  shows "only_prints (bind m f)"
proof -
  from assms(1) obtain r ms where m: "\<And>w. m w = (r, w\<lparr>stdout := stdout w @ ms\<rparr>)"
    unfolding only_prints_def by blast
  show ?thesis
  proof (cases r)
    case (Inl e)
    with m have "\<forall>w. bind m f w = (Inl e, w\<lparr>stdout := stdout w @ ms\<rparr>)"
      by (simp add: bind_def)
    then show ?thesis
      unfolding only_prints_def by blast
  next
    case (Inr a)
    from assms(2) [of a] obtain r2 ms2 where f: "\<And>w. f a w = (r2, w\<lparr>stdout := stdout w @ ms2\<rparr>)"
      unfolding only_prints_def by blast
    from Inr m f have "\<forall>w. bind m f w = (r2, w\<lparr>stdout := stdout w @ (ms @ ms2)\<rparr>)"
      by (simp add: bind_def)
    then show ?thesis
      unfolding only_prints_def by blast
  qed
qed

lemma only_prints_basic:
  "only_prints (return a)"
  "only_prints (lift r)"
  "only_prints (print env m)"
proof -
  have "\<forall>w. return a w = (Inr a, w\<lparr>stdout := stdout w @ []\<rparr>)"
    by (simp add: return_def)
  then show "only_prints (return a)"
    unfolding only_prints_def by blast
  have "\<forall>w. lift r w = (r, w\<lparr>stdout := stdout w @ []\<rparr>)"
    by (simp add: lift_def)
  then show "only_prints (lift r)"
    unfolding only_prints_def by blast
  show "only_prints (print env m)"
  proof (cases "ascii_only m \<or> stdout_encodes env m")
    case True
    then have "\<forall>w. print env m w = (Inr (), w\<lparr>stdout := stdout w @ [m]\<rparr>)"
      by (simp add: print_def)
    then show ?thesis
      unfolding only_prints_def by blast
  next
    case False
    then have "\<forall>w. print env m w = (Inl UnicodeEncodeError, w\<lparr>stdout := stdout w @ []\<rparr>)"
      by (simp add: print_def)
    then show ?thesis
      unfolding only_prints_def by blast
  qed
qed

lemma only_prints_print_items: "only_prints (print_items env md)"
  by (induction md) (simp_all add: only_prints_bind only_prints_basic)

lemma only_prints_print_and_overlay: "only_prints (print_and_overlay env img md)"
  unfolding print_and_overlay_def overlay_metadata_def
  by (intro only_prints_bind only_prints_basic only_prints_print_items)

lemma print_items_run:
  "(\<And>kv. kv \<in> set md \<Longrightarrow>
      ascii_only (MetadataItem (fst kv) (snd kv)) \<or> stdout_encodes env (MetadataItem (fst kv) (snd kv))) \<Longrightarrow>
   print_items env md w =
     (Inr (), w\<lparr>stdout := stdout w @ map (\<lambda>kv. MetadataItem (fst kv) (snd kv)) md\<rparr>)"
  by (induction md arbitrary: w) (simp_all add: return_def bind_def print_def)

lemma print_and_overlay_run:
  "(\<And>kv. kv \<in> set md \<Longrightarrow>
      ascii_only (MetadataItem (fst kv) (snd kv)) \<or> stdout_encodes env (MetadataItem (fst kv) (snd kv))) \<Longrightarrow>
   print_and_overlay env img md w =
     (map_sum id (Pair md) (overlay_lines env img md),
      w\<lparr>stdout := stdout w @ [ExtractedHeader] @ map (\<lambda>kv. MetadataItem (fst kv) (snd kv)) md
           @ [Overlaying]\<rparr>)"
  by (simp add: print_and_overlay_def overlay_metadata_def bind_def print_def lift_def return_def
      print_items_run split: sum.splits)

text \<open>What the stages do, once both requests are answered without error status.\<close>

lemma render_stages_run:
  assumes "http_get env SAMPLE_IMAGE_URL (requests_made w) = Inr r1"
    and "http_get env SAMPLE_IMAGE_URL (requests_made w + 1) = Inr r2"
    and "raise_for_status r1 = Inr ()" and "raise_for_status r2 = Inr ()"
  shows "render_stages env w =
    (case image_open env (content r1) of
       Inl e \<Rightarrow> (Inl e, w\<lparr>stdout := stdout w @ [Downloading SAMPLE_IMAGE_URL],
                          requests_made := requests_made w + 1,
                          stderr := stderr w @ map LogLine (image_open_warnings env (content r1))\<rparr>)
     | Inr img \<Rightarrow>
        (case process_file env (content r2) of
           Inl e \<Rightarrow> (Inl e, w\<lparr>stdout := stdout w @ [Downloading SAMPLE_IMAGE_URL, Extracting],
                              requests_made := requests_made w + 2,
                              stderr := stderr w @ map LogLine (image_open_warnings env (content r1))
                                @ map LogLine (exifread_log env (content r2))\<rparr>)
         | Inr tags \<Rightarrow>
            (case metadata_of_tags tags of
               Inl e \<Rightarrow> (Inl e, w\<lparr>stdout := stdout w @ [Downloading SAMPLE_IMAGE_URL, Extracting],
                                  requests_made := requests_made w + 2,
                                  stderr := stderr w @ map LogLine (image_open_warnings env (content r1))
                                    @ map LogLine (exifread_log env (content r2))\<rparr>)
             | Inr metadata \<Rightarrow>
                 print_and_overlay env img metadata
                   (w\<lparr>stdout := stdout w @ [Downloading SAMPLE_IMAGE_URL, Extracting],
                      requests_made := requests_made w + 2,
                      stderr := stderr w @ map LogLine (image_open_warnings env (content r1))
                        @ map LogLine (exifread_log env (content r2))\<rparr>))))"
  using assms ascii_url
  by (simp add: render_stages_def download_image_def extract_exif_data_def print_and_overlay_def
      Image_open_def exifread_process_file_def logging_def
      bind_def print_def requests_get_def lift_def return_def
      split: sum.splits)

lemma single_fetch_stages_run:
  assumes "http_get env SAMPLE_IMAGE_URL (requests_made w) = Inr r1"
    and "raise_for_status r1 = Inr ()"
  shows "single_fetch_stages env w =
    (case image_open env (content r1) of
       Inl e \<Rightarrow> (Inl e, w\<lparr>stdout := stdout w @ [Downloading SAMPLE_IMAGE_URL],
                          requests_made := requests_made w + 1,
                          stderr := stderr w @ map LogLine (image_open_warnings env (content r1))\<rparr>)
     | Inr img \<Rightarrow>
        (case process_file env (content r1) of
           Inl e \<Rightarrow> (Inl e, w\<lparr>stdout := stdout w @ [Downloading SAMPLE_IMAGE_URL, Extracting],
                              requests_made := requests_made w + 1,
                              stderr := stderr w @ map LogLine (image_open_warnings env (content r1))
                                @ map LogLine (exifread_log env (content r1))\<rparr>)
         | Inr tags \<Rightarrow>
            (case metadata_of_tags tags of
               Inl e \<Rightarrow> (Inl e, w\<lparr>stdout := stdout w @ [Downloading SAMPLE_IMAGE_URL, Extracting],
                                  requests_made := requests_made w + 1,
                                  stderr := stderr w @ map LogLine (image_open_warnings env (content r1))
                                    @ map LogLine (exifread_log env (content r1))\<rparr>)
             | Inr metadata \<Rightarrow>
                 print_and_overlay env img metadata
                   (w\<lparr>stdout := stdout w @ [Downloading SAMPLE_IMAGE_URL, Extracting],
                      requests_made := requests_made w + 1,
                      stderr := stderr w @ map LogLine (image_open_warnings env (content r1))
                        @ map LogLine (exifread_log env (content r1))\<rparr>))))"
  using assms ascii_url
  by (simp add: single_fetch_stages_def print_and_overlay_def
      Image_open_def exifread_process_file_def logging_def
      bind_def print_def requests_get_def lift_def return_def
      split: sum.splits)

lemma sample_env_second_request:
  "http_get (sample_env ts) url (requests_made w + 1) = Inr \<lparr>status_code = 200, content = [255, 216]\<rparr>"
  by (simp add: sample_env_def)

lemma metadata_of_no_tags:
  "metadata_of_tags Map.empty =
     Inr [(''camera'', ''Unknown Camera''), (''lens'', ''Unknown Lens''), (''aperture'', ''f/?''),
          (''shutter'', ''?s''), (''iso'', ''ISO ?''), (''datetime'', ''Unknown Date'')]"
  by (simp add: metadata_of_tags_def dict_set_def camera_field_def lens_field_def
      aperture_field_def shutter_field_def iso_field_def datetime_field_def)

text \<open>
  The stages in an environment that decodes, draws and measures as
  \<^term>\<open>sample_env Map.empty\<close> does and whose server sends the same body with
  a status that is no error, whatever its writer, its standard output and
  the lines its libraries log.
\<close>

lemma render_stages_no_tags:
  assumes "\<And>n. \<exists>st. http_get env SAMPLE_IMAGE_URL n = Inr \<lparr>status_code = st, content = [255, 216]\<rparr>
             \<and> raise_for_status \<lparr>status_code = st, content = [255, 216]\<rparr> = Inr ()"
    and "image_open env = image_open (sample_env Map.empty)"
    and "process_file env = process_file (sample_env Map.empty)"
    and "textbbox env = textbbox (sample_env Map.empty)"
    and "copy_raises env = copy_raises (sample_env Map.empty)"
    and "draw_text_raises env = draw_text_raises (sample_env Map.empty)"
  shows "\<exists>out w1. render_stages env w =
      (Inr ([(''camera'', ''Unknown Camera''), (''lens'', ''Unknown Lens''), (''aperture'', ''f/?''),
             (''shutter'', ''?s''), (''iso'', ''ISO ?''), (''datetime'', ''Unknown Date'')], out), w1)
     \<and> pixels out = [255, 216] \<and> files w1 = files w
     \<and> stderr w1 = stderr w @ map LogLine (image_open_warnings env [255, 216] @ exifread_log env [255, 216])"
proof -
  let ?img = "\<lparr>width = 100, height = 100, mode = ''RGB'', pixels = [255, 216], drawn = []\<rparr>"
  let ?md = "[(''camera'', ''Unknown Camera''), (''lens'', ''Unknown Lens''), (''aperture'', ''f/?''),
       (''shutter'', ''?s''), (''iso'', ''ISO ?''), (''datetime'', ''Unknown Date'')]"
  from assms(1) [of "requests_made w"] obtain st1 where
    g1: "http_get env SAMPLE_IMAGE_URL (requests_made w) = Inr \<lparr>status_code = st1, content = [255, 216]\<rparr>"
    and r1: "raise_for_status \<lparr>status_code = st1, content = [255, 216]\<rparr> = Inr ()"
    by blast
  from assms(1) [of "requests_made w + 1"] obtain st2 where
    g2: "http_get env SAMPLE_IMAGE_URL (requests_made w + 1) = Inr \<lparr>status_code = st2, content = [255, 216]\<rparr>"
    and r2: "raise_for_status \<lparr>status_code = st2, content = [255, 216]\<rparr> = Inr ()"
    by blast
  have i: "image_open env [255, 216] = Inr ?img"
    by (simp add: assms(2) sample_env_def)
  have t: "process_file env [255, 216] = Inr Map.empty"
    by (simp add: assms(3) sample_env_def)
  have b: "textbbox env (resolve_font env) ''Unknown Date'' = Inr (0, 0, 120, 12)"
    by (simp add: assms(4) sample_env_def)
  have c: "copy_raises env ?img = None"
    by (simp add: assms(5) sample_env_def)
  have d: "\<forall>s \<in> set [''Unknown Camera'', ''Unknown Lens'', ''f/?'' @ '' '' @ ''?s'' @ '' '' @ ''ISO ?'',
                  ''Unknown Date''].
        \<forall>c \<in> set [(0, 0, 0), (255, 255, 255)].
          draw_text_raises env (mode ?img) (resolve_font env) s c = None"
    by (simp add: assms(6) sample_env_def)
  have "\<exists>out. overlay_lines env ?img ?md = Inr out \<and> pixels out = [255, 216]"
    by (subst overlay_lines_measured [OF _ _ _ _ _ _ b c d]) (simp_all add: create_text_with_shadow_frame)
  then obtain out where o: "overlay_lines env ?img ?md = Inr out" and p: "pixels out = [255, 216]"
    by blast
  have po: "print_and_overlay env ?img ?md w' =
     (map_sum id (Pair ?md) (overlay_lines env ?img ?md),
      w'\<lparr>stdout := stdout w' @ [ExtractedHeader] @ map (\<lambda>kv. MetadataItem (fst kv) (snd kv)) ?md
           @ [Overlaying]\<rparr>)" for w'
    by (rule print_and_overlay_run) (auto simp: is_ascii_def)
  show ?thesis
    by (simp add: render_stages_run [OF g1 g2 r1 r2] i t metadata_of_no_tags po o p)
qed

lemma main_sample:
  "fst (main (sample_env Map.empty) w0) = 0
   \<and> files (snd (main (sample_env Map.empty) w0)) OUTPUT_FILENAME = Some [255, 216]
   \<and> stderr (snd (main (sample_env Map.empty) w0)) = []"
proof -
  let ?env = "sample_env Map.empty"
  have "\<exists>out w1. render_stages ?env w0 =
      (Inr ([(''camera'', ''Unknown Camera''), (''lens'', ''Unknown Lens''), (''aperture'', ''f/?''),
             (''shutter'', ''?s''), (''iso'', ''ISO ?''), (''datetime'', ''Unknown Date'')], out), w1)
     \<and> pixels out = [255, 216] \<and> files w1 = files w0
     \<and> stderr w1 = stderr w0 @ map LogLine (image_open_warnings ?env [255, 216] @ exifread_log ?env [255, 216])"
    by (rule render_stages_no_tags) (simp_all add: sample_env_def raise_for_status_def)
  then obtain out w1 where
    r: "render_stages ?env w0 =
      (Inr ([(''camera'', ''Unknown Camera''), (''lens'', ''Unknown Lens''), (''aperture'', ''f/?''),
             (''shutter'', ''?s''), (''iso'', ''ISO ?''), (''datetime'', ''Unknown Date'')], out), w1)"
    and p: "pixels out = [255, 216]" and f: "files w1 = files w0"
    and s: "stderr w1 = stderr w0 @ map LogLine (image_open_warnings ?env [255, 216] @ exifread_log ?env [255, 216])"
    by blast
  have sv: "save_file ?env out ''JPEG'' 95 old = (Some [255, 216], None)" for old
    by (simp add: sample_env_def p)
  have enc: "stdout_encodes ?env (Success OUTPUT_FILENAME)"
    by (simp add: sample_env_def)
  show ?thesis
    by (simp add: main_run r sv s enc) (simp add: w0_def sample_env_def)
qed

text \<open>
  C8.  Every run of \<^const>\<open>main\<close> ends in one of four ways; in each of them
  the error stream holds what it held, then the lines the libraries have
  logged, then the line of failure if there is one.  All stages and the
  writer succeed and standard output encodes the line of success: the exit
  code is 0, no line of failure is printed and the output file is what the
  writer made of the composited image.  A stage before the writer raises (a
  failed request, a response with a status from 400 to 599, a decoding, an
  extraction, a printing or a rendering error): the exit code is 1, the error
  is printed to the error stream and no file is created or modified.  The
  writer itself raises: the exit code is 1, the error is printed, and the
  output file is left as the writer left it.  The writer succeeds and
  standard output cannot encode the line of success, which is printed inside
  the \<^verbatim>\<open>try\<close>: the exit code is 1, the \<open>UnicodeEncodeError\<close> is printed to
  the error stream, and the output file is written.  In particular a first
  response with a status from 400 to 599 gives exit code 1, its \<open>HTTPError\<close>
  as the only new line of the error stream and untouched files.
\<close>

theorem main_exit_code_and_output:
  "(\<exists>rc w' ls. main env w = (rc, w') \<and>
      ((rc = 0 \<and> stderr w' = stderr w @ map LogLine ls \<and>
          (\<exists>metadata out new. fst (render_stages env w) = Inr (metadata, out)
             \<and> save_file env out ''JPEG'' 95 (files w OUTPUT_FILENAME) = (new, None)
             \<and> stdout_encodes env (Success OUTPUT_FILENAME)
             \<and> files w' = (files w)(OUTPUT_FILENAME := new)))
       \<or> (rc = 1 \<and>
          (\<exists>e. stderr w' = stderr w @ map LogLine ls @ [ErrorMessage e] \<and>
             ((fst (render_stages env w) = Inl e \<and> files w' = files w)
              \<or> (\<exists>metadata out new. fst (render_stages env w) = Inr (metadata, out)
                    \<and> save_file env out ''JPEG'' 95 (files w OUTPUT_FILENAME) = (new, Some e)
                    \<and> files w' = (files w)(OUTPUT_FILENAME := new))
              \<or> (\<exists>metadata out new. fst (render_stages env w) = Inr (metadata, out)
                    \<and> save_file env out ''JPEG'' 95 (files w OUTPUT_FILENAME) = (new, None)
                    \<and> \<not> stdout_encodes env (Success OUTPUT_FILENAME)
                    \<and> e = UnicodeEncodeError
                    \<and> files w' = (files w)(OUTPUT_FILENAME := new)))))))
   \<and> (\<forall>r. http_get env SAMPLE_IMAGE_URL (requests_made w) = Inr r
          \<and> 400 \<le> status_code r \<and> status_code r < 600 \<longrightarrow>
        fst (main env w) = 1 \<and> files (snd (main env w)) = files w
        \<and> stderr (snd (main env w)) = stderr w @ [ErrorMessage (HTTPError (status_code r))])"
proof (rule conjI)
  obtain res w1 where r: "render_stages env w = (res, w1)"
    by (cases "render_stages env w")
  from render_stages_frame [of env w] r obtain ls where
    f: "files w1 = files w" and s: "stderr w1 = stderr w @ map LogLine ls"
    by auto
  show "\<exists>rc w' ls. main env w = (rc, w') \<and>
      ((rc = 0 \<and> stderr w' = stderr w @ map LogLine ls \<and>
          (\<exists>metadata out new. fst (render_stages env w) = Inr (metadata, out)
             \<and> save_file env out ''JPEG'' 95 (files w OUTPUT_FILENAME) = (new, None)
             \<and> stdout_encodes env (Success OUTPUT_FILENAME)
             \<and> files w' = (files w)(OUTPUT_FILENAME := new)))
       \<or> (rc = 1 \<and>
          (\<exists>e. stderr w' = stderr w @ map LogLine ls @ [ErrorMessage e] \<and>
             ((fst (render_stages env w) = Inl e \<and> files w' = files w)
              \<or> (\<exists>metadata out new. fst (render_stages env w) = Inr (metadata, out)
                    \<and> save_file env out ''JPEG'' 95 (files w OUTPUT_FILENAME) = (new, Some e)
                    \<and> files w' = (files w)(OUTPUT_FILENAME := new))
              \<or> (\<exists>metadata out new. fst (render_stages env w) = Inr (metadata, out)
                    \<and> save_file env out ''JPEG'' 95 (files w OUTPUT_FILENAME) = (new, None)
                    \<and> \<not> stdout_encodes env (Success OUTPUT_FILENAME)
                    \<and> e = UnicodeEncodeError
                    \<and> files w' = (files w)(OUTPUT_FILENAME := new))))))"
  proof (cases res)
    case (Inl e)
    with r f s have "main env w = (1, w1\<lparr>stderr := stderr w1 @ [ErrorMessage e]\<rparr>)"
      by (simp add: main_run)
    with r f s Inl show ?thesis
      by (intro exI [of _ 1] exI [of _ "w1\<lparr>stderr := stderr w1 @ [ErrorMessage e]\<rparr>"] exI [of _ ls])
        simp
  next
    case (Inr p)
    obtain metadata out where p: "p = (metadata, out)" by (cases p)
    obtain new exc where sv: "save_file env out ''JPEG'' 95 (files w OUTPUT_FILENAME) = (new, exc)"
      by (cases "save_file env out ''JPEG'' 95 (files w OUTPUT_FILENAME)")
    show ?thesis
    proof (cases exc)
      case None
      show ?thesis
      proof (cases "stdout_encodes env (Success OUTPUT_FILENAME)")
        case True
        with None r f s Inr p sv have
          "main env w = (0, w1\<lparr>files := (files w1)(OUTPUT_FILENAME := new),
                               stdout := stdout w1 @ [Success OUTPUT_FILENAME]\<rparr>)"
          by (simp add: main_run)
        with True None r f s Inr p sv show ?thesis
          by (intro exI [of _ 0] exI [of _ ls]
              exI [of _ "w1\<lparr>files := (files w1)(OUTPUT_FILENAME := new),
                             stdout := stdout w1 @ [Success OUTPUT_FILENAME]\<rparr>"])
            simp
      next
        case False
        with None r f s Inr p sv have
          "main env w = (1, w1\<lparr>files := (files w1)(OUTPUT_FILENAME := new),
                               stderr := stderr w1 @ [ErrorMessage UnicodeEncodeError]\<rparr>)"
          by (simp add: main_run)
        with False None r f s Inr p sv show ?thesis
          by (intro exI [of _ 1] exI [of _ ls]
              exI [of _ "w1\<lparr>files := (files w1)(OUTPUT_FILENAME := new),
                             stderr := stderr w1 @ [ErrorMessage UnicodeEncodeError]\<rparr>"])
            simp
      qed
    next
      case (Some e)
      with r f s Inr p sv have
        "main env w = (1, w1\<lparr>files := (files w1)(OUTPUT_FILENAME := new),
                             stderr := stderr w1 @ [ErrorMessage e]\<rparr>)"
        by (simp add: main_run)
      with Some r f s Inr p sv show ?thesis
        by (intro exI [of _ 1] exI [of _ ls]
            exI [of _ "w1\<lparr>files := (files w1)(OUTPUT_FILENAME := new),
                           stderr := stderr w1 @ [ErrorMessage e]\<rparr>"])
          simp
    qed
  qed
next
  have "fst (main env w) = 1 \<and> files (snd (main env w)) = files w
        \<and> stderr (snd (main env w)) = stderr w @ [ErrorMessage (HTTPError (status_code r))]"
    if a: "http_get env SAMPLE_IMAGE_URL (requests_made w) = Inr r
          \<and> 400 \<le> status_code r \<and> status_code r < 600" for r
  proof -
    from a ascii_url have "render_stages env w =
        (Inl (HTTPError (status_code r)),
         w\<lparr>stdout := stdout w @ [Downloading SAMPLE_IMAGE_URL], requests_made := requests_made w + 1\<rparr>)"
      by (simp add: render_stages_def download_image_def bind_def print_def requests_get_def lift_def
          raise_for_status_def)
    then show ?thesis
      by (simp add: main_run)
  qed
  then show "\<forall>r. http_get env SAMPLE_IMAGE_URL (requests_made w) = Inr r
          \<and> 400 \<le> status_code r \<and> status_code r < 600 \<longrightarrow>
        fst (main env w) = 1 \<and> files (snd (main env w)) = files w
        \<and> stderr (snd (main env w)) = stderr w @ [ErrorMessage (HTTPError (status_code r))]"
    by blast
qed

theorem main_exit_code_and_output_witness:
  "fst (main (sample_env Map.empty) w0) = 0
   \<and> files (snd (main (sample_env Map.empty) w0)) OUTPUT_FILENAME = Some [255, 216]
   \<and> stderr (snd (main (sample_env Map.empty) w0)) = []
   \<and> fst (main server_error_env w0) = 1
   \<and> files (snd (main server_error_env w0)) = files w0
   \<and> stderr (snd (main server_error_env w0)) = stderr w0 @ [ErrorMessage (HTTPError 500)]"
proof -
  have h: "http_get server_error_env SAMPLE_IMAGE_URL (requests_made w0)
             = Inr \<lparr>status_code = 500, content = []\<rparr>
          \<and> 400 \<le> status_code \<lparr>status_code = 500, content = []\<rparr>
          \<and> status_code \<lparr>status_code = 500, content = []\<rparr> < 600"
    by (simp add: server_error_env_def)
  from main_exit_code_and_output [of server_error_env w0, THEN conjunct2, rule_format, OF h]
    main_sample
  show ?thesis by simp
qed

text \<open>
  That a failed run never touches the output file does not hold when it is
  the writer that fails: the script does not write to a temporary file first.
  Here a previous run has left an output file of three bytes and the writer
  raises after opening it; the run exits with code 1 and the file is empty.
  And not every response outside 200 to 299 is a failure: a response with
  status 300 whose body is the image passes \<^verbatim>\<open>raise_for_status\<close>, and the
  run exits with code 0 and writes the file.  Nor is a run that exits with
  code 1 a run that has written nothing: on a standard output that encodes
  ASCII only, the file is written, the line of success raises, and the run
  exits with code 1.
\<close>

lemma main_failed_write:
  "files w_previous_run OUTPUT_FILENAME = Some [7, 8, 9]
   \<and> fst (main failing_writer_env w_previous_run) = 1
   \<and> files (snd (main failing_writer_env w_previous_run)) OUTPUT_FILENAME = Some []"
proof -
  let ?env = failing_writer_env
  have "\<exists>out w1. render_stages ?env w_previous_run =
      (Inr ([(''camera'', ''Unknown Camera''), (''lens'', ''Unknown Lens''), (''aperture'', ''f/?''),
             (''shutter'', ''?s''), (''iso'', ''ISO ?''), (''datetime'', ''Unknown Date'')], out), w1)
     \<and> pixels out = [255, 216] \<and> files w1 = files w_previous_run
     \<and> stderr w1 = stderr w_previous_run
         @ map LogLine (image_open_warnings ?env [255, 216] @ exifread_log ?env [255, 216])"
    by (rule render_stages_no_tags)
      (simp_all add: failing_writer_env_def sample_env_def raise_for_status_def)
  then obtain out w1 where
    s: "render_stages ?env w_previous_run =
      (Inr ([(''camera'', ''Unknown Camera''), (''lens'', ''Unknown Lens''), (''aperture'', ''f/?''),
             (''shutter'', ''?s''), (''iso'', ''ISO ?''), (''datetime'', ''Unknown Date'')], out), w1)"
    and f: "files w1 = files w_previous_run"
    by blast
  have p: "files w_previous_run OUTPUT_FILENAME = Some [7, 8, 9]"
    by (simp add: w_previous_run_def)
  have sv: "save_file ?env out ''JPEG'' 95 (Some [7, 8, 9]) = (Some [], Some (LibraryError ''OSError''))"
    by (simp add: failing_writer_env_def)
  show ?thesis
    by (simp add: main_run s f p sv)
qed

lemma main_status_300:
  "fst (main multiple_choices_env w0) = 0
   \<and> files (snd (main multiple_choices_env w0)) OUTPUT_FILENAME = Some [255, 216]
   \<and> stderr (snd (main multiple_choices_env w0)) = []"
proof -
  let ?env = multiple_choices_env
  have "\<exists>out w1. render_stages ?env w0 =
      (Inr ([(''camera'', ''Unknown Camera''), (''lens'', ''Unknown Lens''), (''aperture'', ''f/?''),
             (''shutter'', ''?s''), (''iso'', ''ISO ?''), (''datetime'', ''Unknown Date'')], out), w1)
     \<and> pixels out = [255, 216] \<and> files w1 = files w0
     \<and> stderr w1 = stderr w0 @ map LogLine (image_open_warnings ?env [255, 216] @ exifread_log ?env [255, 216])"
    by (rule render_stages_no_tags)
      (simp_all add: multiple_choices_env_def sample_env_def raise_for_status_def)
  then obtain out w1 where
    r: "render_stages ?env w0 =
      (Inr ([(''camera'', ''Unknown Camera''), (''lens'', ''Unknown Lens''), (''aperture'', ''f/?''),
             (''shutter'', ''?s''), (''iso'', ''ISO ?''), (''datetime'', ''Unknown Date'')], out), w1)"
    and p: "pixels out = [255, 216]" and f: "files w1 = files w0"
    and s: "stderr w1 = stderr w0 @ map LogLine (image_open_warnings ?env [255, 216] @ exifread_log ?env [255, 216])"
    by blast
  have sv: "save_file ?env out ''JPEG'' 95 old = (Some [255, 216], None)" for old
    by (simp add: multiple_choices_env_def sample_env_def p)
  have enc: "stdout_encodes ?env (Success OUTPUT_FILENAME)"
    by (simp add: multiple_choices_env_def sample_env_def)
  show ?thesis
    by (simp add: main_run r sv s enc) (simp add: w0_def multiple_choices_env_def sample_env_def)
qed

lemma main_ascii_stdout:
  "fst (main ascii_stdout_env w0) = 1
   \<and> files (snd (main ascii_stdout_env w0)) OUTPUT_FILENAME = Some [255, 216]
   \<and> stderr (snd (main ascii_stdout_env w0)) = [ErrorMessage UnicodeEncodeError]"
proof -
  let ?env = ascii_stdout_env
  have "\<exists>out w1. render_stages ?env w0 =
      (Inr ([(''camera'', ''Unknown Camera''), (''lens'', ''Unknown Lens''), (''aperture'', ''f/?''),
             (''shutter'', ''?s''), (''iso'', ''ISO ?''), (''datetime'', ''Unknown Date'')], out), w1)
     \<and> pixels out = [255, 216] \<and> files w1 = files w0
     \<and> stderr w1 = stderr w0 @ map LogLine (image_open_warnings ?env [255, 216] @ exifread_log ?env [255, 216])"
    by (rule render_stages_no_tags)
      (simp_all add: ascii_stdout_env_def sample_env_def raise_for_status_def)
  then obtain out w1 where
    r: "render_stages ?env w0 =
      (Inr ([(''camera'', ''Unknown Camera''), (''lens'', ''Unknown Lens''), (''aperture'', ''f/?''),
             (''shutter'', ''?s''), (''iso'', ''ISO ?''), (''datetime'', ''Unknown Date'')], out), w1)"
    and p: "pixels out = [255, 216]" and f: "files w1 = files w0"
    and s: "stderr w1 = stderr w0 @ map LogLine (image_open_warnings ?env [255, 216] @ exifread_log ?env [255, 216])"
    by blast
  have sv: "save_file ?env out ''JPEG'' 95 old = (Some [255, 216], None)" for old
    by (simp add: ascii_stdout_env_def sample_env_def p)
  have enc: "\<not> stdout_encodes ?env (Success OUTPUT_FILENAME)"
    by (simp add: ascii_stdout_env_def)
  show ?thesis
    by (simp add: main_run r sv s enc) (simp add: w0_def ascii_stdout_env_def sample_env_def)
qed

text \<open>
  A run that succeeds while \<^verbatim>\<open>exifread\<close> logs a warning: the exit code is
  0 and the warning is on the error stream.
\<close>

lemma main_logging:
  "fst (main logging_env w0) = 0
   \<and> files (snd (main logging_env w0)) OUTPUT_FILENAME = Some [255, 216]
   \<and> stderr (snd (main logging_env w0)) = [LogLine ''File format not recognized.'']"
proof -
  let ?env = logging_env
  have "\<exists>out w1. render_stages ?env w0 =
      (Inr ([(''camera'', ''Unknown Camera''), (''lens'', ''Unknown Lens''), (''aperture'', ''f/?''),
             (''shutter'', ''?s''), (''iso'', ''ISO ?''), (''datetime'', ''Unknown Date'')], out), w1)
     \<and> pixels out = [255, 216] \<and> files w1 = files w0
     \<and> stderr w1 = stderr w0 @ map LogLine (image_open_warnings ?env [255, 216] @ exifread_log ?env [255, 216])"
    by (rule render_stages_no_tags)
      (simp_all add: logging_env_def sample_env_def raise_for_status_def)
  then obtain out w1 where
    r: "render_stages ?env w0 =
      (Inr ([(''camera'', ''Unknown Camera''), (''lens'', ''Unknown Lens''), (''aperture'', ''f/?''),
             (''shutter'', ''?s''), (''iso'', ''ISO ?''), (''datetime'', ''Unknown Date'')], out), w1)"
    and p: "pixels out = [255, 216]" and f: "files w1 = files w0"
    and s: "stderr w1 = stderr w0 @ map LogLine (image_open_warnings ?env [255, 216] @ exifread_log ?env [255, 216])"
    by blast
  have sv: "save_file ?env out ''JPEG'' 95 old = (Some [255, 216], None)" for old
    by (simp add: logging_env_def sample_env_def p)
  have enc: "stdout_encodes ?env (Success OUTPUT_FILENAME)"
    by (simp add: logging_env_def sample_env_def)
  show ?thesis
    by (simp add: main_run r sv s enc) (simp add: w0_def logging_env_def sample_env_def)
qed

theorem main_failed_write_modifies_file:
  "files w_previous_run OUTPUT_FILENAME = Some [7, 8, 9]
   \<and> fst (main failing_writer_env w_previous_run) = 1
   \<and> files (snd (main failing_writer_env w_previous_run)) OUTPUT_FILENAME = Some []
   \<and> http_get multiple_choices_env SAMPLE_IMAGE_URL (requests_made w0)
        = Inr \<lparr>status_code = 300, content = [255, 216]\<rparr>
   \<and> fst (main multiple_choices_env w0) = 0
   \<and> files (snd (main multiple_choices_env w0)) OUTPUT_FILENAME = Some [255, 216]
   \<and> files w0 OUTPUT_FILENAME = None
   \<and> fst (main ascii_stdout_env w0) = 1
   \<and> files (snd (main ascii_stdout_env w0)) OUTPUT_FILENAME = Some [255, 216]"
  using main_failed_write main_status_300 main_ascii_stdout
  by (simp add: multiple_choices_env_def w0_def)

text \<open>
  C9.  When both requests of \<^const>\<open>main\<close> are answered without error status
  and with the same bytes, the single-fetch pipeline, which decodes the image
  and the tags from the bytes of its one request, gives the same result of
  the stages (the same error, or the same metadata and the same composited
  image) and the same exit code, standard output, error stream and files as
  \<^const>\<open>main\<close>.
\<close>

theorem single_fetch_same_output:
  assumes "http_get env SAMPLE_IMAGE_URL (requests_made w) = Inr r1"
    and "http_get env SAMPLE_IMAGE_URL (requests_made w + 1) = Inr r2"
    and "raise_for_status r1 = Inr ()" and "raise_for_status r2 = Inr ()"
    and "content r1 = b" and "content r2 = b"
  shows "fst (single_fetch_stages env w) = fst (render_stages env w)
    \<and> fst (single_fetch_main env w) = fst (main env w)
    \<and> stdout (snd (single_fetch_main env w)) = stdout (snd (main env w))
    \<and> stderr (snd (single_fetch_main env w)) = stderr (snd (main env w))
    \<and> files (snd (single_fetch_main env w)) = files (snd (main env w))"
proof -
  note run = render_stages_run [OF assms(1-4)] single_fetch_stages_run [OF assms(1,3)]
  have c: "content r2 = content r1" using assms(5,6) by simp
  show ?thesis
  proof (cases "image_open env (content r1)")
    case (Inl e)
    then show ?thesis
      by (simp add: main_run single_fetch_main_run run)
  next
    case img: (Inr img)
    show ?thesis
    proof (cases "process_file env (content r1)")
      case (Inl e)
      with img c show ?thesis
        by (simp add: main_run single_fetch_main_run run)
    next
      case tags: (Inr tags)
      show ?thesis
      proof (cases "metadata_of_tags tags")
        case (Inl e)
        with img tags c show ?thesis
          by (simp add: main_run single_fetch_main_run run)
      next
        case md: (Inr metadata)
        from only_prints_print_and_overlay [of env img metadata] obtain res ms where
          po: "\<And>w. print_and_overlay env img metadata w = (res, w\<lparr>stdout := stdout w @ ms\<rparr>)"
          unfolding only_prints_def by blast
        show ?thesis
        proof (cases res)
          case (Inl e)
          with img tags md c show ?thesis
            by (simp add: main_run single_fetch_main_run run po)
        next
          case (Inr p)
          with img tags md c show ?thesis
            by (simp add: main_run single_fetch_main_run run po split: prod.splits option.splits)
        qed
      qed
    qed
  qed
qed

theorem single_fetch_same_output_witness:
  "fst (single_fetch_stages (sample_env Map.empty) w0) = fst (render_stages (sample_env Map.empty) w0)
   \<and> fst (single_fetch_main (sample_env Map.empty) w0) = 0
   \<and> stdout (snd (single_fetch_main (sample_env Map.empty) w0)) = stdout (snd (main (sample_env Map.empty) w0))
   \<and> stderr (snd (single_fetch_main (sample_env Map.empty) w0)) = []
   \<and> files (snd (single_fetch_main (sample_env Map.empty) w0)) OUTPUT_FILENAME = Some [255, 216]"
  using single_fetch_same_output [where env = "sample_env Map.empty" and w = w0,
      OF sample_env_decoded(1) sample_env_second_request
      sample_env_decoded(2) sample_env_decoded(2) refl]
    main_sample
  by simp

end
